theory Spec2Isabelle
  imports Complex_Main "HOL-Library.AList"
begin

section \<open>Data model of the engine (src/src/engine/types.ts)\<close>

text \<open>
  A TypeScript \<open>number\<close> is modelled as a real: sums, products, comparisons, \<open>Math.floor\<close>,
  \<open>Math.min\<close>, \<open>Math.max\<close> and \<open>Math.abs\<close> are the exact operations, so rounding of IEEE doubles,
  NaN and the infinities are outside the model. The one exception is
  \<open>generateRecommendations\<close>, whose results turn on rounding and whose arithmetic is
  double-precision arithmetic (see there). Counters that only ever start at 0 and are
  incremented are natural numbers. Field names that occur in more than one interface carry a
  short prefix of their interface.
\<close>

datatype TubeType = ST | FL | FH | SF | RF

datatype PayoutStrategyType = Fixed | Percentage | Logarithmic | Progressive

datatype outcome_kind = Win | Lose | Bust | Tie

record ParticipantOutcome =
  participantId :: string
  outcome :: outcome_kind
  handRank :: string
  payout :: real
  tubePayout :: real
  bustPenalty :: real

record TubePayoutRecord =
  tp_tubeType :: TubeType
  tp_amount :: real
  tp_participantId :: string
  tp_timestamp :: real

record BustPenaltyRecord =
  bp_participantId :: string
  bp_amount :: real
  bp_reason :: string
  bp_timestamp :: real

record HouseLedger =
  totalAnteCollected :: real
  totalPayoutsGiven :: real
  totalBustPenaltiesCollected :: real
  totalTubePayouts :: real
  netProfit :: real
  roundsPlayed :: nat
  anteHistory :: "real list"
  payoutHistory :: "real list"
  bustHistory :: "real list"

section \<open>House ledger (houseLedger.ts)\<close>

definition createHouseLedger :: HouseLedger where
  "createHouseLedger =
     \<lparr> totalAnteCollected = 0, totalPayoutsGiven = 0, totalBustPenaltiesCollected = 0,
       totalTubePayouts = 0, netProfit = 0, roundsPlayed = 0,
       anteHistory = [], payoutHistory = [], bustHistory = [] \<rparr>"

definition updateNetProfit :: "HouseLedger \<Rightarrow> HouseLedger" where
  "updateNetProfit ledger =
     ledger\<lparr> netProfit :=
       totalAnteCollected ledger + totalBustPenaltiesCollected ledger - totalPayoutsGiven ledger \<rparr>"

definition recordAnteCollection :: "HouseLedger \<Rightarrow> real \<Rightarrow> HouseLedger" where
  "recordAnteCollection ledger amount =
     updateNetProfit (ledger\<lparr> totalAnteCollected := totalAnteCollected ledger + amount,
                              anteHistory := anteHistory ledger @ [amount] \<rparr>)"

definition recordPayout :: "HouseLedger \<Rightarrow> real \<Rightarrow> HouseLedger" where
  "recordPayout ledger amount =
     updateNetProfit (ledger\<lparr> totalPayoutsGiven := totalPayoutsGiven ledger + amount,
                              payoutHistory := payoutHistory ledger @ [amount] \<rparr>)"

definition recordTubePayout :: "HouseLedger \<Rightarrow> real \<Rightarrow> HouseLedger" where
  "recordTubePayout ledger amount =
     updateNetProfit (ledger\<lparr> totalTubePayouts := totalTubePayouts ledger + amount,
                              totalPayoutsGiven := totalPayoutsGiven ledger + amount,
                              payoutHistory := payoutHistory ledger @ [amount] \<rparr>)"

definition recordBustPenalty :: "HouseLedger \<Rightarrow> real \<Rightarrow> HouseLedger" where
  "recordBustPenalty ledger amount =
     updateNetProfit (ledger\<lparr> totalBustPenaltiesCollected :=
                                totalBustPenaltiesCollected ledger + amount,
                              bustHistory := bustHistory ledger @ [amount] \<rparr>)"

definition recordRoundComplete :: "HouseLedger \<Rightarrow> HouseLedger" where
  "recordRoundComplete ledger = ledger\<lparr> roundsPlayed := roundsPlayed ledger + 1 \<rparr>"

text \<open>
  \<open>processRoundOutcomes\<close>: the ante first, then one loop per array, in the order of the
  source; each loop threads the ledger through the record call of its body.
\<close>

definition processRoundOutcomes ::
  "HouseLedger \<Rightarrow> ParticipantOutcome list \<Rightarrow> TubePayoutRecord list \<Rightarrow> BustPenaltyRecord list
     \<Rightarrow> real \<Rightarrow> HouseLedger" where
  "processRoundOutcomes ledger outcomes tubePayouts bustPenalties anteCollected =
     (let l1 = recordAnteCollection ledger anteCollected;
          l2 = fold (\<lambda>t l. recordTubePayout l (tp_amount t)) tubePayouts l1;
          l3 = fold (\<lambda>b l. recordBustPenalty l (bp_amount b)) bustPenalties l2;
          l4 = fold (\<lambda>oc l. if outcome oc = Win \<and> payout oc > 0
                              then recordPayout l (payout oc) else l) outcomes l3
      in recordRoundComplete l4)"

text \<open>The conservation equation that \<open>updateNetProfit\<close> establishes.\<close>

definition ledger_conserved :: "HouseLedger \<Rightarrow> bool" where
  "ledger_conserved l \<longleftrightarrow>
     netProfit l = totalAnteCollected l + totalBustPenaltiesCollected l - totalPayoutsGiven l"

text \<open>
  The ledgers that a caller can hold: the fresh one, and the result of any exported call on
  one of them. The amounts are arbitrary reals, which includes every nonnegative amount.
\<close>

inductive ledger_reachable :: "HouseLedger \<Rightarrow> bool" where
  lr_create: "ledger_reachable createHouseLedger"
| lr_ante: "ledger_reachable l \<Longrightarrow> ledger_reachable (recordAnteCollection l a)"
| lr_payout: "ledger_reachable l \<Longrightarrow> ledger_reachable (recordPayout l a)"
| lr_tube: "ledger_reachable l \<Longrightarrow> ledger_reachable (recordTubePayout l a)"
| lr_bust: "ledger_reachable l \<Longrightarrow> ledger_reachable (recordBustPenalty l a)"
| lr_round: "ledger_reachable l \<Longrightarrow> ledger_reachable (recordRoundComplete l)"
| lr_process: "ledger_reachable l \<Longrightarrow> ledger_reachable (processRoundOutcomes l os ts bs a)"

section \<open>Payout strategies (payoutStrategies.ts)\<close>

text \<open>
  The argument object \<open>{current, initial, max}\<close> of a strategy, a strategy with its
  \<open>calculate\<close> closure, and the result of \<open>calculateTubePayout\<close>. A quotient by zero is 0 in
  HOL where the source yields an infinity or NaN; no statement below divides by zero.
\<close>

record tube_arg =
  tube_current :: real
  tube_initial :: real
  tube_max :: real

record PayoutStrategy =
  stype :: PayoutStrategyType
  calculate :: "tube_arg \<Rightarrow> real"

record TubePayoutResult =
  r_payout :: real
  newBalance :: real
  wasEmpty :: bool
  triggersBust :: bool

definition fixedStrategy :: PayoutStrategy where
  "fixedStrategy = \<lparr> stype = Fixed, calculate = (\<lambda>tube. tube_initial tube) \<rparr>"

definition createPercentageStrategy :: "real \<Rightarrow> PayoutStrategy" where
  "createPercentageStrategy percent =
     \<lparr> stype = Percentage,
       calculate = (\<lambda>tube. of_int \<lfloor>tube_current tube * percent\<rfloor>) \<rparr>"

definition createLogarithmicStrategy :: "real \<Rightarrow> PayoutStrategy" where
  "createLogarithmicStrategy base =
     \<lparr> stype = Logarithmic,
       calculate = (\<lambda>tube. if tube_current tube \<le> 0 then 0
                            else of_int \<lfloor>base + ln (tube_current tube + 1) * 2\<rfloor>) \<rparr>"

definition createProgressiveStrategy :: "real \<Rightarrow> PayoutStrategy" where
  "createProgressiveStrategy threshold =
     \<lparr> stype = Progressive,
       calculate = (\<lambda>tube.
         let fillRatio = tube_current tube / tube_max tube;
             multiplier = (if fillRatio > threshold then 1 + (fillRatio - threshold) * 2 else 1)
         in of_int \<lfloor>tube_initial tube * multiplier\<rfloor>) \<rparr>"

fun getPayoutStrategy :: "PayoutStrategyType \<Rightarrow> PayoutStrategy" where
  "getPayoutStrategy Fixed = fixedStrategy"
| "getPayoutStrategy Percentage = createPercentageStrategy 0.25"
| "getPayoutStrategy Logarithmic = createLogarithmicStrategy 2"
| "getPayoutStrategy Progressive = createProgressiveStrategy 0.5"

definition calculateTubePayout ::
  "string \<Rightarrow> real \<Rightarrow> real \<Rightarrow> real \<Rightarrow> PayoutStrategy \<Rightarrow> TubePayoutResult" where
  "calculateTubePayout tubeType currentBalance initialBalance maxBalance strategy =
     (if currentBalance \<le> 0
      then \<lparr> r_payout = 0, newBalance = 0, wasEmpty = True, triggersBust = True \<rparr>
      else
        let p = calculate strategy \<lparr> tube_current = currentBalance,
                                      tube_initial = initialBalance,
                                      tube_max = maxBalance \<rparr>;
            actualPayout = min p currentBalance;
            newBal = currentBalance - actualPayout
        in \<lparr> r_payout = actualPayout, newBalance = newBal,
             wasEmpty = False, triggersBust = False \<rparr>)"

section \<open>Hold-type registry (htRegistry.ts)\<close>

text \<open>
  \<open>Card\<close> and \<open>HandResult\<close> are declared in utils/deck and utils/handEvaluator, which are not
  part of the sources at hand; the registry reads \<open>card.rank\<close> and \<open>result.rank\<close> only, the
  table components read \<open>card.suit\<close> and \<open>handResult.name\<close>. The hand evaluator itself
  (\<open>evaluateHand\<close>, \<open>has4CardFlushDraw\<close>, \<open>has4CardStraightDraw\<close>) is a parameter of the
  model, collected in the record \<open>HandEvaluator\<close>; the two draw predicates return their flag
  and the positions to hold, which the matchers read under a non-null assertion.
\<close>

record Card =
  card_rank :: string
  suit :: string

record HandResult =
  hr_rank :: string
  hr_name :: string

record FlushDraw =
  hasFlushDraw :: bool
  fd_cardsToHold :: "nat list"

record StraightDraw =
  hasStraightDraw :: bool
  sd_cardsToHold :: "nat list"

record HandEvaluator =
  evaluateHand :: "Card list \<Rightarrow> HandResult"
  has4CardFlushDraw :: "Card list \<Rightarrow> FlushDraw"
  has4CardStraightDraw :: "Card list \<Rightarrow> StraightDraw"

record HTDecision =
  htId :: string
  d_category :: string
  d_description :: string
  cardsToHold :: "nat list"
  expectedValue :: real
  d_bustPotential :: bool

record HTRule =
  rule_id :: string
  priority :: real
  category :: string
  description :: string
  bustPotential :: bool
  theoreticalEV :: real
  enabled :: bool
  matcher :: "Card list \<Rightarrow> HandResult \<Rightarrow> nat list option"

record HTStats =
  usageCount :: nat
  winCount :: nat
  lossCount :: nat
  bustCount :: nat
  totalWon :: real
  totalWagered :: real
  tubeHits :: "(string \<times> nat) list"
  calculatedEV :: real

text \<open>
  The two \<open>Map\<close>s of the registry class are association lists in insertion order:
  \<open>Map.get\<close> is \<open>map_of\<close>, \<open>Map.set\<close> is \<open>AList.update\<close> (an existing key keeps its place, a new
  one goes to the end), \<open>Map.delete\<close> is \<open>AList.delete\<close>.
\<close>

record HTRegistryState =
  rules :: "(string \<times> HTRule) list"
  stats :: "(string \<times> HTStats) list"

record Exploit =
  e_htId :: string
  ev :: real

datatype error = Error string

definition createEmptyStats :: HTStats where
  "createEmptyStats =
     \<lparr> usageCount = 0, winCount = 0, lossCount = 0, bustCount = 0, totalWon = 0,
       totalWagered = 0,
       tubeHits = [(''ST'', 0), (''FL'', 0), (''FH'', 0), (''SF'', 0), (''RF'', 0)],
       calculatedEV = 0 \<rparr>"

definition register :: "HTRegistryState \<Rightarrow> HTRule \<Rightarrow> HTRegistryState" where
  "register reg rule =
     reg\<lparr> rules := AList.update (rule_id rule) rule (rules reg),
          stats := AList.update (rule_id rule) createEmptyStats (stats reg) \<rparr>"

definition unregister :: "HTRegistryState \<Rightarrow> string \<Rightarrow> HTRegistryState" where
  "unregister reg h =
     reg\<lparr> rules := AList.delete h (rules reg), stats := AList.delete h (stats reg) \<rparr>"

definition setEnabled :: "HTRegistryState \<Rightarrow> string \<Rightarrow> bool \<Rightarrow> HTRegistryState" where
  "setEnabled reg h en =
     (case map_of (rules reg) h of
        None \<Rightarrow> reg
      | Some rule \<Rightarrow> reg\<lparr> rules := AList.update h (rule\<lparr> enabled := en \<rparr>) (rules reg) \<rparr>)"

text \<open>
  \<open>getAllRules\<close>: the enabled rules by descending priority. \<open>Array.prototype.sort\<close> is
  stable, and so is \<open>sort_key\<close>.
\<close>

definition getAllRules :: "HTRegistryState \<Rightarrow> HTRule list" where
  "getAllRules reg = sort_key (\<lambda>r. - priority r) (filter enabled (map snd (rules reg)))"

definition getRule :: "HTRegistryState \<Rightarrow> string \<Rightarrow> HTRule option" where
  "getRule reg h = map_of (rules reg) h"

definition getStats :: "HTRegistryState \<Rightarrow> string \<Rightarrow> HTStats option" where
  "getStats reg h = map_of (stats reg) h"

definition rule_decision :: "HTRule \<Rightarrow> nat list \<Rightarrow> HTDecision" where
  "rule_decision rule hold =
     \<lparr> htId = rule_id rule, d_category = category rule, d_description = description rule,
       cardsToHold = hold, expectedValue = theoreticalEV rule,
       d_bustPotential = bustPotential rule \<rparr>"

definition fallback_decision :: HTDecision where
  "fallback_decision =
     \<lparr> htId = ''H0.DRAW5'', d_category = ''H0'', d_description = ''Draw all 5'',
       cardsToHold = [], expectedValue = 0.5, d_bustPotential = True \<rparr>"

text \<open>The \<open>for\<close> loop of \<open>decide\<close> over the sorted rules, with the built-in fallback behind it.\<close>

fun decide_loop :: "HTRule list \<Rightarrow> Card list \<Rightarrow> HandResult \<Rightarrow> HTDecision" where
  "decide_loop [] cards handResult = fallback_decision"
| "decide_loop (rule # rest) cards handResult =
     (case matcher rule cards handResult of
        Some hold \<Rightarrow> rule_decision rule hold
      | None \<Rightarrow> decide_loop rest cards handResult)"

definition decide ::
  "HandEvaluator \<Rightarrow> HTRegistryState \<Rightarrow> Card list \<Rightarrow> error + HTDecision" where
  "decide he reg cards =
     (if length cards \<noteq> 5 then Inl (Error ''HT decision requires exactly 5 cards'')
      else Inr (decide_loop (getAllRules reg) cards (evaluateHand he cards)))"

text \<open>
  \<open>recordOutcome\<close>. The stats object is updated in place in the source; here the updated
  object replaces the entry under the same key.
\<close>

definition recordOutcome ::
  "HTRegistryState \<Rightarrow> string \<Rightarrow> outcome_kind \<Rightarrow> real \<Rightarrow> real \<Rightarrow> string option
     \<Rightarrow> HTRegistryState" where
  "recordOutcome reg h oc wagered won tubeType =
     (case map_of (stats reg) h of
        None \<Rightarrow> reg
      | Some st \<Rightarrow>
          let s1 = st\<lparr> usageCount := usageCount st + 1,
                       totalWagered := totalWagered st + wagered,
                       totalWon := totalWon st + won \<rparr>;
              s2 = (if oc = Win then s1\<lparr> winCount := winCount s1 + 1 \<rparr>
                    else if oc = Lose then s1\<lparr> lossCount := lossCount s1 + 1 \<rparr>
                    else if oc = Bust then s1\<lparr> bustCount := bustCount s1 + 1 \<rparr>
                    else s1);
              s3 = (case tubeType of
                      None \<Rightarrow> s2
                    | Some t \<Rightarrow>
                        if t \<noteq> [] \<and> map_of (tubeHits s2) t \<noteq> None
                        then s2\<lparr> tubeHits := AList.map_entry t Suc (tubeHits s2) \<rparr>
                        else s2);
              s4 = (if totalWagered s3 > 0
                    then s3\<lparr> calculatedEV :=
                               (totalWon s3 - totalWagered s3) / totalWagered s3 \<rparr>
                    else s3)
          in reg\<lparr> stats := AList.update h s4 (stats reg) \<rparr>)"

definition resetStats :: "HTRegistryState \<Rightarrow> HTRegistryState" where
  "resetStats reg = reg\<lparr> stats := map (\<lambda>(h, _). (h, createEmptyStats)) (stats reg) \<rparr>"

definition getExploitableHTs :: "HTRegistryState \<Rightarrow> real \<Rightarrow> Exploit list" where
  "getExploitableHTs reg threshold =
     sort_key (\<lambda>e. - ev e)
       (map (\<lambda>(h, st). \<lparr> e_htId = h, ev = calculatedEV st \<rparr>)
          (filter (\<lambda>(h, st). usageCount st > 100 \<and> calculatedEV st > threshold) (stats reg)))"

subsection \<open>Grouping cards by rank\<close>

text \<open>
  \<open>findNOfAKind\<close> and \<open>findTwoPairs\<close> collect positions in a plain object keyed by rank and
  then walk \<open>Object.values\<close>: keys that are array indices (canonical decimal numerals
  below \<open>2^32 - 1\<close>, such as the ranks 2 to 10) come first in ascending numeric order, the
  other keys follow in insertion order.
\<close>

definition is_digit :: "char \<Rightarrow> bool" where
  "is_digit c \<longleftrightarrow> (48::nat) \<le> of_char c \<and> of_char c \<le> (57::nat)"

definition dec_val :: "string \<Rightarrow> nat" where
  "dec_val s = foldl (\<lambda>a c. 10 * a + (of_char c - 48)) 0 s"

definition is_array_index :: "string \<Rightarrow> bool" where
  "is_array_index s \<longleftrightarrow>
     s \<noteq> [] \<and> list_all is_digit s \<and> (hd s = CHR ''0'' \<longrightarrow> s = ''0'')
     \<and> dec_val s < 2 ^ 32 - 1"

fun obj_insert_new :: "string \<Rightarrow> 'v \<Rightarrow> (string \<times> 'v) list \<Rightarrow> (string \<times> 'v) list" where
  "obj_insert_new k v [] = [(k, v)]"
| "obj_insert_new k v (p # ps) =
     (if is_array_index k \<and> (\<not> is_array_index (fst p) \<or> dec_val k < dec_val (fst p))
      then (k, v) # p # ps
      else p # obj_insert_new k v ps)"

definition group_push :: "(string \<times> nat list) list \<Rightarrow> string \<Rightarrow> nat \<Rightarrow> (string \<times> nat list) list"
  where
  "group_push groups r i =
     (case map_of groups r of
        None \<Rightarrow> obj_insert_new r [i] groups
      | Some _ \<Rightarrow> AList.map_entry r (\<lambda>is. is @ [i]) groups)"

definition rank_groups :: "Card list \<Rightarrow> (string \<times> nat list) list" where
  "rank_groups cards =
     fold (\<lambda>(i, card) groups. group_push groups (card_rank card) i) (enumerate 0 cards) []"

definition findNOfAKind :: "Card list \<Rightarrow> nat \<Rightarrow> nat list option" where
  "findNOfAKind cards n = find (\<lambda>indices. length indices = n) (map snd (rank_groups cards))"

definition findTwoPairs :: "Card list \<Rightarrow> nat list option" where
  "findTwoPairs cards =
     (let pairs = filter (\<lambda>g. length g = 2) (map snd (rank_groups cards))
      in if length pairs \<ge> 2 then Some (pairs ! 0 @ pairs ! 1) else None)"

fun firstHighCard :: "Card list \<Rightarrow> nat \<Rightarrow> nat list option" where
  "firstHighCard [] i = None"
| "firstHighCard (c # cs) i =
     (if card_rank c = ''A'' \<or> card_rank c = ''K'' then Some [i]
      else firstHighCard cs (Suc i))"

subsection \<open>The default rules\<close>

text \<open>
  The six made-hand registrations differ in id, priority, description, theoretical EV and
  the rank they test; \<open>made_hand_rule\<close> writes the object literal they share.
\<close>

definition made_hand_rule :: "string \<Rightarrow> real \<Rightarrow> string \<Rightarrow> real \<Rightarrow> string \<Rightarrow> HTRule" where
  "made_hand_rule h prio descr tev rk =
     \<lparr> rule_id = h, priority = prio, category = ''H5'', description = descr,
       bustPotential = False, theoreticalEV = tev, enabled = True,
       matcher = (\<lambda>_ result. if hr_rank result = rk then Some [0, 1, 2, 3, 4] else None) \<rparr>"

definition defaultRules :: "HandEvaluator \<Rightarrow> HTRule list" where
  "defaultRules he =
     [ made_hand_rule ''H5.RF'' 100 ''Royal Flush - Hold all'' 25 ''royal-flush'',
       made_hand_rule ''H5.SF'' 99 ''Straight Flush - Hold all'' 20 ''straight-flush'',
       made_hand_rule ''H5.4K'' 98 ''Four of a Kind - Hold all'' 15 ''four-of-a-kind'',
       made_hand_rule ''H5.FH'' 97 ''Full House - Hold all'' 15 ''full-house'',
       made_hand_rule ''H5.FL'' 96 ''Flush - Hold all'' 10 ''flush'',
       made_hand_rule ''H5.ST'' 95 ''Straight - Hold all'' 5 ''straight'',
       \<lparr> rule_id = ''H4.4FL'', priority = 85, category = ''H4'',
         description = ''4-card Flush draw'', bustPotential = True, theoreticalEV = 5.5,
         enabled = True,
         matcher = (\<lambda>cards _. let flushDraw = has4CardFlushDraw he cards
                               in if hasFlushDraw flushDraw
                                  then Some (fd_cardsToHold flushDraw) else None) \<rparr>,
       \<lparr> rule_id = ''H4.4ST'', priority = 80, category = ''H4'',
         description = ''4-card Straight draw'', bustPotential = True, theoreticalEV = 4,
         enabled = True,
         matcher = (\<lambda>cards _. let straightDraw = has4CardStraightDraw he cards
                               in if hasStraightDraw straightDraw
                                  then Some (sd_cardsToHold straightDraw) else None) \<rparr>,
       \<lparr> rule_id = ''H3.3K'', priority = 75, category = ''H3'',
         description = ''Three of a Kind - Hold trips'', bustPotential = False,
         theoreticalEV = 6, enabled = True,
         matcher = (\<lambda>cards result. if hr_rank result \<noteq> ''three-of-a-kind'' then None
                                    else findNOfAKind cards 3) \<rparr>,
       \<lparr> rule_id = ''H2.2P'', priority = 70, category = ''H2'',
         description = ''Two Pair - Hold both pairs'', bustPotential = False,
         theoreticalEV = 4.5, enabled = True,
         matcher = (\<lambda>cards result. if hr_rank result \<noteq> ''two-pair'' then None
                                    else findTwoPairs cards) \<rparr>,
       \<lparr> rule_id = ''H2.1P'', priority = 65, category = ''H2'',
         description = ''One Pair - Hold pair'', bustPotential = False,
         theoreticalEV = 2.5, enabled = True,
         matcher = (\<lambda>cards result. if hr_rank result \<noteq> ''pair'' then None
                                    else findNOfAKind cards 2) \<rparr>,
       \<lparr> rule_id = ''H1.HC'', priority = 50, category = ''H1'',
         description = ''Hold highest card (A or K)'', bustPotential = True,
         theoreticalEV = 1, enabled = True,
         matcher = (\<lambda>cards result. if hr_rank result \<noteq> ''high-card'' then None
                                    else firstHighCard cards 0) \<rparr>,
       \<lparr> rule_id = ''H0.DRAW5'', priority = 0, category = ''H0'',
         description = ''Draw all 5 - no holdings'', bustPotential = True,
         theoreticalEV = 0.5, enabled = True,
         matcher = (\<lambda>_ _. Some []) \<rparr> ]"

definition registerDefaultRules ::
  "HandEvaluator \<Rightarrow> HTRegistryState \<Rightarrow> HTRegistryState" where
  "registerDefaultRules he reg = fold (\<lambda>rule r. register r rule) (defaultRules he) reg"

text \<open>The singleton \<open>HTRegistry\<close> as its constructor leaves it.\<close>

definition newHTRegistry :: "HandEvaluator \<Rightarrow> HTRegistryState" where
  "newHTRegistry he = registerDefaultRules he \<lparr> rules = [], stats = [] \<rparr>"

text \<open>
  What every registry built by the class satisfies: a rule is stored under its own id, no id
  occurs twice, and the rules and the statistics have the same keys.
\<close>

definition registry_wf :: "HTRegistryState \<Rightarrow> bool" where
  "registry_wf reg \<longleftrightarrow>
     distinct (map fst (rules reg))
     \<and> list_all (\<lambda>(k, r). rule_id r = k) (rules reg)
     \<and> fst ` set (rules reg) = fst ` set (stats reg)"

section \<open>Engine configuration (types.ts)\<close>

text \<open>
  \<open>TubeBalances\<close>, \<open>TubeConfig\<close> and \<open>Record<keyof TubeBalances, number>\<close> are objects with exactly
  the five keys ST, FL, FH, SF, RF: functions on \<open>TubeType\<close>. \<open>Object.keys\<close> and
  \<open>Object.values\<close> walk them in the order in which the object literals list the keys.
\<close>

record tube_cfg =
  cfg_initial :: real
  cfg_max :: real

type_synonym TubeBalances = "TubeType \<Rightarrow> real"

type_synonym TubeConfig = "TubeType \<Rightarrow> tube_cfg"

definition tube_keys :: "TubeType list" where
  "tube_keys = [ST, FL, FH, SF, RF]"

fun tubeName :: "TubeType \<Rightarrow> string" where
  "tubeName ST = ''ST''"
| "tubeName FL = ''FL''"
| "tubeName FH = ''FH''"
| "tubeName SF = ''SF''"
| "tubeName RF = ''RF''"

record EngineConfig =
  playerCount :: nat
  ante :: real
  dealerDrawAllowed :: bool
  dealerBustAllowed :: bool
  dealerWinsOnTie :: bool
  dealerAggression :: real
  bustPenaltyMultiplier :: real
  tubes :: TubeConfig
  payoutStrategy :: PayoutStrategyType
  playerRefillsOnWin :: bool
  houseRefillsOnEmpty :: bool
  refillAmount :: real
  autoRefillThreshold :: real
  bonusPayoutThreshold :: real



fun defaultTubes :: TubeConfig where
  "defaultTubes ST = \<lparr> cfg_initial = 5, cfg_max = 10 \<rparr>"
| "defaultTubes FL = \<lparr> cfg_initial = 10, cfg_max = 20 \<rparr>"
| "defaultTubes FH = \<lparr> cfg_initial = 15, cfg_max = 30 \<rparr>"
| "defaultTubes SF = \<lparr> cfg_initial = 20, cfg_max = 40 \<rparr>"
| "defaultTubes RF = \<lparr> cfg_initial = 25, cfg_max = 50 \<rparr>"

definition DEFAULT_ENGINE_CONFIG :: EngineConfig where
  "DEFAULT_ENGINE_CONFIG =
     \<lparr> playerCount = 4, ante = 5, dealerDrawAllowed = True, dealerBustAllowed = True,
       dealerWinsOnTie = False, dealerAggression = 0.5, bustPenaltyMultiplier = 1,
       tubes = defaultTubes, payoutStrategy = Fixed, playerRefillsOnWin = True,
       houseRefillsOnEmpty = True, refillAmount = 1, autoRefillThreshold = 2,
       bonusPayoutThreshold = 40 \<rparr>"

section \<open>AI balancing engine (balancingEngine.ts)\<close>

record ObjectiveWeights =
  edgeDeviation :: real
  volatility :: real
  tubeDrain :: real
  exploitRisk :: real

record OptimizationObjective =
  targetEdge :: real
  edgeTolerance :: real
  maxVolatility :: real
  maxExploitEV :: real
  weights :: ObjectiveWeights

record SimulationMetrics =
  houseEdge :: real
  volatilityIndex :: real
  tubeDrainRates :: TubeBalances
  exploitableHTs :: "Exploit list"
  playerReturnRate :: real
  bustRate :: real
  avgRoundDelta :: real

record AIBalancingEngine =
  objective :: OptimizationObjective
  learningRate :: real
  maxIterations :: nat

definition DEFAULT_OBJECTIVE :: OptimizationObjective where
  "DEFAULT_OBJECTIVE =
     \<lparr> targetEdge = 0.05, edgeTolerance = 0.02, maxVolatility = 25, maxExploitEV = 0.02,
       weights = \<lparr> edgeDeviation = 1, volatility = 0.5, tubeDrain = 0.3,
                   exploitRisk = 0.8 \<rparr> \<rparr>"

text \<open>The constructor, applied to the objective that the spread over the defaults yields.\<close>

definition createAIBalancer :: "OptimizationObjective \<Rightarrow> AIBalancingEngine" where
  "createAIBalancer obj = \<lparr> objective = obj, learningRate = 0.1, maxIterations = 100 \<rparr>"

text \<open>\<open>Object.values(metrics.tubeDrainRates).reduce((a, b) => a + b, 0) / 5\<close>.\<close>

definition avgDrainOf :: "TubeBalances \<Rightarrow> real" where
  "avgDrainOf rates = foldl (+) 0 (map rates tube_keys) / 5"

definition calculateScore :: "AIBalancingEngine \<Rightarrow> SimulationMetrics \<Rightarrow> real" where
  "calculateScore eng metrics =
     (let obj = objective eng; w = weights obj;
          edgeDev = \<bar>houseEdge metrics - targetEdge obj\<bar>;
          edgePenalty = edgeDev * edgeDeviation w;
          volPenalty = (if volatilityIndex metrics > maxVolatility obj
                        then (volatilityIndex metrics - maxVolatility obj) * volatility w
                        else 0);
          avgDrain = avgDrainOf (tubeDrainRates metrics);
          drainPenalty = (if avgDrain > 0.3 then (avgDrain - 0.3) * tubeDrain w else 0);
          exploitPenalty =
            foldl (\<lambda>sum ht. sum + (if ev ht > maxExploitEV obj then ev ht * exploitRisk w
                                      else 0)) 0 (exploitableHTs metrics)
      in edgePenalty + volPenalty + drainPenalty + exploitPenalty)"


subsection \<open>Double-precision arithmetic\<close>

text \<open>
  The results of \<open>generateRecommendations\<close> hang on rounding: \<open>Math.floor\<close> of a product and
  strict comparisons with 0.01, 0.3 and 0.4. Its arithmetic is therefore IEEE 754 binary64
  arithmetic with round-to-nearest, ties-to-even: \<open>rnd\<close> maps a real to the nearest double,
  and each of \<open>+\<close>, \<open>-\<close>, \<open>*\<close>, \<open>/\<close> is the exact operation followed by \<open>rnd\<close>. Comparisons,
  \<open>Math.floor\<close>, \<open>Math.abs\<close>, \<open>Math.min\<close> and \<open>Math.max\<close> are exact on doubles. \<open>fp_normalize\<close>
  scales the magnitude into \<open>[2^52, 2^53)\<close>, or stops at the exponent \<open>-1074\<close> of the
  subnormal doubles; \<open>rne\<close> rounds the scaled significand to an integer, a tie to the even
  one. Overflow to an infinity and NaN are outside the model. A number stored in a record of
  the model stands for the double nearest to it, and \<open>dbl\<close> reads it; \<open>dbl\<close> is also what a
  decimal literal of the source denotes.
\<close>

primrec fp_normalize :: "nat \<Rightarrow> real \<Rightarrow> int \<Rightarrow> real \<times> int" where
  "fp_normalize 0 m e = (m, e)"
| "fp_normalize (Suc n) m e =
     (if 2 ^ 53 \<le> m then fp_normalize n (m / 2) (e + 1)
      else if m < 2 ^ 52 \<and> - 1074 < e then fp_normalize n (m * 2) (e - 1)
      else (m, e))"

definition rne :: "real \<Rightarrow> int" where
  "rne m = (let f = \<lfloor>m\<rfloor>; d = m - of_int f
            in if d < 1 / 2 then f
               else if 1 / 2 < d then f + 1
               else if even f then f else f + 1)"

definition scale2 :: "int \<Rightarrow> real" where
  "scale2 e = (if 0 \<le> e then 2 ^ nat e else 1 / 2 ^ nat (- e))"

definition rnd :: "real \<Rightarrow> real" where
  "rnd x = (if x = 0 then 0
            else let (m, e) = fp_normalize 2200 \<bar>x\<bar> 0
                 in sgn x * of_int (rne m) * scale2 e)"

definition dbl :: "real \<Rightarrow> real" where
  "dbl x = rnd x"

definition fadd :: "real \<Rightarrow> real \<Rightarrow> real" where
  "fadd x y = rnd (x + y)"

definition fsub :: "real \<Rightarrow> real \<Rightarrow> real" where
  "fsub x y = rnd (x - y)"

definition fmul :: "real \<Rightarrow> real \<Rightarrow> real" where
  "fmul x y = rnd (x * y)"

definition fdiv :: "real \<Rightarrow> real \<Rightarrow> real" where
  "fdiv x y = rnd (x / y)"



text \<open>\<open>mitigateExploits\<close> acts on the registry singleton; the console message is left out.\<close>

definition mitigateExploits ::
  "AIBalancingEngine \<Rightarrow> Exploit list \<Rightarrow> HTRegistryState \<Rightarrow> HTRegistryState" where
  "mitigateExploits eng exploits reg =
     fold (\<lambda>exploit r. if ev exploit > maxExploitEV (objective eng) * 2
                        then setEnabled r (e_htId exploit) False else r) exploits reg"

text \<open>
  The score as the specification words it, for comparison with \<open>calculateScore\<close>: the
  exploit term sums the excess \<open>ev - maxExploitEV\<close> of every exploitable rule over the ceiling.
\<close>

definition spec_score :: "AIBalancingEngine \<Rightarrow> SimulationMetrics \<Rightarrow> real" where
  "spec_score eng metrics =
     (let obj = objective eng; w = weights obj
      in edgeDeviation w * \<bar>houseEdge metrics - targetEdge obj\<bar>
         + volatility w * max 0 (volatilityIndex metrics - maxVolatility obj)
         + tubeDrain w * max 0 (avgDrainOf (tubeDrainRates metrics) - 0.3)
         + exploitRisk w *
             (\<Sum>ht \<leftarrow> filter (\<lambda>ht. ev ht > maxExploitEV obj) (exploitableHTs metrics).
                ev ht - maxExploitEV obj))"

section \<open>Sample inputs\<close>

text \<open>Concrete metrics on which the theorems below are evaluated.\<close>

definition no_drain :: TubeBalances where
  "no_drain = (\<lambda>_. 0)"




definition exploit_metrics :: SimulationMetrics where
  "exploit_metrics =
     \<lparr> houseEdge = 0.05, volatilityIndex = 10, tubeDrainRates = no_drain,
       exploitableHTs = [\<lparr> e_htId = ''H1.HC'', ev = 0.05 \<rparr>],
       playerReturnRate = 0.95, bustRate = 0, avgRoundDelta = 0 \<rparr>"




text \<open>
  A stand-in for the external hand evaluator. It reports what a five-card-draw evaluator
  reports for the two hands below, which hold no pair, no straight, no flush and no
  four-card draw: the rank \<open>high-card\<close> and no draw.
\<close>

definition stub_evaluator :: HandEvaluator where
  "stub_evaluator =
     \<lparr> evaluateHand = (\<lambda>_. \<lparr> hr_rank = ''high-card'', hr_name = ''High Card'' \<rparr>),
       has4CardFlushDraw = (\<lambda>_. \<lparr> hasFlushDraw = False, fd_cardsToHold = [] \<rparr>),
       has4CardStraightDraw = (\<lambda>_. \<lparr> hasStraightDraw = False, sd_cardsToHold = [] \<rparr>) \<rparr>"

definition low_hand :: "Card list" where
  "low_hand =
     [ \<lparr> card_rank = ''2'', suit = ''hearts'' \<rparr>, \<lparr> card_rank = ''5'', suit = ''diamonds'' \<rparr>,
       \<lparr> card_rank = ''7'', suit = ''clubs'' \<rparr>, \<lparr> card_rank = ''9'', suit = ''spades'' \<rparr>,
       \<lparr> card_rank = ''J'', suit = ''hearts'' \<rparr> ]"

definition ace_hand :: "Card list" where
  "ace_hand =
     [ \<lparr> card_rank = ''3'', suit = ''diamonds'' \<rparr>, \<lparr> card_rank = ''A'', suit = ''spades'' \<rparr>,
       \<lparr> card_rank = ''7'', suit = ''clubs'' \<rparr>, \<lparr> card_rank = ''9'', suit = ''hearts'' \<rparr>,
       \<lparr> card_rank = ''J'', suit = ''diamonds'' \<rparr> ]"

definition fallback_exploit :: "Exploit list" where
  "fallback_exploit = [\<lparr> e_htId = ''H0.DRAW5'', ev = 0.05 \<rparr>]"

definition high_card_exploit :: "Exploit list" where
  "high_card_exploit = [\<lparr> e_htId = ''H1.HC'', ev = 0.05 \<rparr>]"

section \<open>Showdown resolution (the game orchestrator)\<close>

text \<open>
  \<open>resolveOutcomes\<close> of the orchestrator class. The hand comparator \<open>compareHands\<close> and the
  clock \<open>Date.now()\<close> are external: the comparator is a parameter, the clock reading a
  parameter \<open>now\<close>. Events sent to listeners are left out. The loop body mutates the
  participant, the round and the registry singleton; here it returns the three.
\<close>

datatype RoundPhase =
  Waiting | AntePhase | Deal | Hold | Draw | Evaluate | Showdown | PayoutPhase | Complete

record Participant =
  p_id :: string
  p_name :: string
  isDealer :: bool
  credits :: real
  seatPosition :: nat
  currentHand :: "Card list"
  heldCardIndices :: "nat list"
  finalHand :: "Card list"
  handResult :: "HandResult option"
  htDecision :: "HTDecision option"
  isBusted :: bool
  isActive :: bool

record RoundState =
  roundNumber :: nat
  phase :: RoundPhase
  deck :: "Card list"
  cardsDealt :: nat
  participants :: "Participant list"
  dealer :: Participant
  playPot :: real
  anteCollected :: real
  tubeBalances :: TubeBalances
  outcomes :: "ParticipantOutcome list"
  tubePayouts :: "TubePayoutRecord list"
  bustPenalties :: "BustPenaltyRecord list"
  stackTriggers :: "TubeType list"

definition handRankToTube :: "string \<Rightarrow> TubeType option" where
  "handRankToTube rk =
     (if rk = ''straight'' then Some ST
      else if rk = ''flush'' then Some FL
      else if rk = ''full-house'' then Some FH
      else if rk = ''straight-flush'' then Some SF
      else if rk = ''royal-flush'' then Some RF
      else None)"

text \<open>\<open>p.htDecision?.htId || 'H0.DRAW5'\<close>: an absent decision or an empty id gives the default.\<close>

definition decisionId :: "Participant \<Rightarrow> string" where
  "decisionId p =
     (case htDecision p of
        None \<Rightarrow> ''H0.DRAW5''
      | Some d \<Rightarrow> if htId d = [] then ''H0.DRAW5'' else htId d)"

definition resolveParticipant ::
  "EngineConfig \<Rightarrow> (HandResult \<Rightarrow> HandResult \<Rightarrow> real) \<Rightarrow> real \<Rightarrow> HandResult \<Rightarrow> Participant
     \<Rightarrow> RoundState \<Rightarrow> HTRegistryState \<Rightarrow> Participant \<times> RoundState \<times> HTRegistryState" where
  "resolveParticipant config compareHands now dealerResult p rs reg =
     (case handResult p of
        None \<Rightarrow> (p, rs, reg)
      | Some hr \<Rightarrow>
          if \<not> isActive p then (p, rs, reg)
          else
            let comparison = compareHands hr dealerResult;
                (oc, pay, tubePay, penalty, p1, rs1) =
                  (if comparison > 0 then
                     (case handRankToTube (hr_rank hr) of
                        Some tubeType \<Rightarrow>
                          let tubeConfig = tubes config tubeType;
                              currentBalance = tubeBalances rs tubeType;
                              strategy = getPayoutStrategy (payoutStrategy config);
                              result = calculateTubePayout (tubeName tubeType) currentBalance
                                         (cfg_initial tubeConfig) (cfg_max tubeConfig) strategy
                          in if triggersBust result
                             then let pen = ante config * bustPenaltyMultiplier config
                                  in (Bust, 0, 0, pen, p\<lparr> isBusted := True \<rparr>,
                                      rs\<lparr> bustPenalties := bustPenalties rs @
                                        [\<lparr> bp_participantId = p_id p, bp_amount = pen,
                                           bp_reason = tubeName tubeType @ '' tube empty'',
                                           bp_timestamp = now \<rparr>] \<rparr>)
                             else (Win, 0, r_payout result, 0, p,
                                   rs\<lparr> tubeBalances :=
                                            (tubeBalances rs)(tubeType := newBalance result),
                                          tubePayouts := tubePayouts rs @
                                            [\<lparr> tp_tubeType = tubeType,
                                               tp_amount = r_payout result,
                                               tp_participantId = p_id p,
                                               tp_timestamp = now \<rparr>] \<rparr>)
                      | None \<Rightarrow> (Win, ante config, 0, 0, p, rs))
                   else if comparison < 0 then (Lose, 0, 0, 0, p, rs)
                   else if dealerWinsOnTie config then (Lose, 0, 0, 0, p, rs)
                   else (Tie, ante config, 0, 0, p, rs));
                p2 = p1\<lparr> credits := credits p1 + (pay + tubePay) \<rparr>;
                rs2 = rs1\<lparr> outcomes := outcomes rs1 @
                           [\<lparr> participantId = p_id p, outcome = oc, handRank = hr_rank hr,
                              payout = pay, tubePayout = tubePay, bustPenalty = penalty \<rparr>] \<rparr>;
                reg2 = recordOutcome reg (decisionId p) (if oc = Tie then Win else oc)
                         (ante config) (pay + tubePay)
                         (map_option tubeName (handRankToTube (hr_rank hr)))
            in (p2, rs2, reg2))"

definition resolveOutcomes ::
  "EngineConfig \<Rightarrow> (HandResult \<Rightarrow> HandResult \<Rightarrow> real) \<Rightarrow> real \<Rightarrow> RoundState \<Rightarrow> HTRegistryState
     \<Rightarrow> error + RoundState \<times> HTRegistryState" where
  "resolveOutcomes config compareHands now rs0 reg0 =
     (let rs = rs0\<lparr> phase := Showdown \<rparr>
      in case handResult (dealer rs) of
           None \<Rightarrow> Inl (Error ''Dealer hand not evaluated'')
         | Some dealerResult \<Rightarrow>
             let (ps, rs', reg') =
                   fold (\<lambda>p (seen, rnd, rg).
                           let (p', rnd', rg') =
                                 resolveParticipant config compareHands now dealerResult p rnd rg
                           in (seen @ [p'], rnd', rg'))
                        (participants rs) ([], rs, reg0)
             in Inr (rs'\<lparr> participants := ps \<rparr>, reg'))"

text \<open>
  The ledger update of \<open>completeRound\<close>: the round's outcomes, tube payouts, bust penalties
  and collected ante go through \<open>processRoundOutcomes\<close>. \<open>initialBalances\<close> are the tube
  balances with which \<open>startRound\<close> opens a round.
\<close>

definition roundLedger :: "HouseLedger \<Rightarrow> RoundState \<Rightarrow> HouseLedger" where
  "roundLedger ledger rs =
     processRoundOutcomes ledger (outcomes rs) (tubePayouts rs) (bustPenalties rs)
       (anteCollected rs)"

definition initialBalances :: "EngineConfig \<Rightarrow> TubeBalances" where
  "initialBalances config = (\<lambda>t. cfg_initial (tubes config t))"

subsection \<open>A sample round\<close>

text \<open>
  One player and the dealer, both left with a high-card hand that the comparator ranks
  equal; the antes of 5 are collected.
\<close>

definition tie_compare :: "HandResult \<Rightarrow> HandResult \<Rightarrow> real" where
  "tie_compare = (\<lambda>_ _. 0)"

definition high_card_result :: HandResult where
  "high_card_result = \<lparr> hr_rank = ''high-card'', hr_name = ''High Card'' \<rparr>"

definition tied_player :: Participant where
  "tied_player =
     \<lparr> p_id = ''player_1'', p_name = ''Player 1'', isDealer = False, credits = 995,
       seatPosition = 1, currentHand = low_hand, heldCardIndices = [], finalHand = low_hand,
       handResult = Some high_card_result, htDecision = Some fallback_decision,
       isBusted = False, isActive = True \<rparr>"

definition tied_dealer :: Participant where
  "tied_dealer =
     \<lparr> p_id = ''dealer'', p_name = ''Dealer'', isDealer = True, credits = 9995,
       seatPosition = 0, currentHand = low_hand, heldCardIndices = [], finalHand = low_hand,
       handResult = Some high_card_result, htDecision = Some fallback_decision,
       isBusted = False, isActive = True \<rparr>"

definition tied_round :: RoundState where
  "tied_round =
     \<lparr> roundNumber = 1, phase = Evaluate, deck = [], cardsDealt = 10,
       participants = [tied_player], dealer = tied_dealer, playPot = 10, anteCollected = 10,
       tubeBalances = initialBalances DEFAULT_ENGINE_CONFIG, outcomes = [], tubePayouts = [],
       bustPenalties = [], stackTriggers = [] \<rparr>"

definition plain_win :: ParticipantOutcome where
  "plain_win =
     \<lparr> participantId = ''player_2'', outcome = Win, handRank = ''pair'', payout = 5,
       tubePayout = 0, bustPenalty = 0 \<rparr>"

definition tie_outcome :: "EngineConfig \<Rightarrow> Participant \<Rightarrow> HandResult \<Rightarrow> ParticipantOutcome" where
  "tie_outcome config p hr =
     \<lparr> participantId = p_id p, outcome = Tie, handRank = hr_rank hr, payout = ante config,
       tubePayout = 0, bustPenalty = 0 \<rparr>"

section \<open>Ledger lemmas\<close>

lemma conserved_updateNetProfit: "ledger_conserved (updateNetProfit l)"
  by (simp add: ledger_conserved_def updateNetProfit_def)

lemma conserved_ante: "ledger_conserved (recordAnteCollection l a)"
  unfolding recordAnteCollection_def by (rule conserved_updateNetProfit)

lemma conserved_payout: "ledger_conserved (recordPayout l a)"
  unfolding recordPayout_def by (rule conserved_updateNetProfit)

lemma conserved_tube: "ledger_conserved (recordTubePayout l a)"
  unfolding recordTubePayout_def by (rule conserved_updateNetProfit)

lemma conserved_bust: "ledger_conserved (recordBustPenalty l a)"
  unfolding recordBustPenalty_def by (rule conserved_updateNetProfit)

lemma conserved_round: "ledger_conserved l \<Longrightarrow> ledger_conserved (recordRoundComplete l)"
  by (simp add: ledger_conserved_def recordRoundComplete_def)

lemma conserved_fold_tube:
  "ledger_conserved l \<Longrightarrow> ledger_conserved (fold (\<lambda>t l. recordTubePayout l (tp_amount t)) ts l)"
  by (induction ts arbitrary: l) (simp_all add: conserved_tube)

lemma conserved_fold_bust:
  "ledger_conserved l \<Longrightarrow> ledger_conserved (fold (\<lambda>b l. recordBustPenalty l (bp_amount b)) bs l)"
  by (induction bs arbitrary: l) (simp_all add: conserved_bust)

lemma conserved_fold_payout:
  "ledger_conserved l \<Longrightarrow>
   ledger_conserved (fold (\<lambda>oc l. if outcome oc = Win \<and> payout oc > 0
                                   then recordPayout l (payout oc) else l) os l)"
  by (induction os arbitrary: l) (simp_all add: conserved_payout)

lemma conserved_process: "ledger_conserved (processRoundOutcomes l os ts bs a)"
  unfolding processRoundOutcomes_def Let_def
  by (intro conserved_round conserved_fold_payout conserved_fold_bust conserved_fold_tube
        conserved_ante)

lemma reachable_conserved: "ledger_reachable l \<Longrightarrow> ledger_conserved l"
proof (induction rule: ledger_reachable.induct)
  case lr_create
  show ?case by (simp add: ledger_conserved_def createHouseLedger_def)
next
  case (lr_round l)
  from lr_round.IH show ?case by (rule conserved_round)
qed (simp_all add: conserved_ante conserved_payout conserved_tube conserved_bust
       conserved_process)

text \<open>
  C3. Every ledger reachable from \<open>createHouseLedger\<close> by the record calls and
  \<open>processRoundOutcomes\<close> satisfies
  \<open>netProfit = totalAnteCollected + totalBustPenaltiesCollected - totalPayoutsGiven\<close>; since the
  reachable ledgers are closed under each call, this is the equation after every individual
  call. \<open>recordTubePayout\<close> adds its amount to \<open>totalTubePayouts\<close> and to \<open>totalPayoutsGiven\<close>.
\<close>

theorem ledger_conservation:
  "ledger_reachable l \<Longrightarrow>
     netProfit l = totalAnteCollected l + totalBustPenaltiesCollected l - totalPayoutsGiven l
     \<and> totalTubePayouts (recordTubePayout l a) = totalTubePayouts l + a
     \<and> totalPayoutsGiven (recordTubePayout l a) = totalPayoutsGiven l + a
     \<and> ledger_reachable (recordTubePayout l a)"
proof -
  assume r: "ledger_reachable l"
  have "ledger_conserved l" using r by (rule reachable_conserved)
  moreover have "ledger_reachable (recordTubePayout l a)" using r by (rule lr_tube)
  ultimately show ?thesis
    by (simp add: ledger_conserved_def recordTubePayout_def updateNetProfit_def)
qed

theorem ledger_conservation_witness:
  "ledger_reachable (recordAnteCollection createHouseLedger 25)
   \<and> netProfit (recordAnteCollection createHouseLedger 25) = 25
   \<and> totalTubePayouts (recordTubePayout (recordAnteCollection createHouseLedger 25) 5) = 5
   \<and> totalPayoutsGiven (recordTubePayout (recordAnteCollection createHouseLedger 25) 5) = 5"
proof -
  have r: "ledger_reachable (recordAnteCollection createHouseLedger 25)"
    by (rule lr_ante [OF lr_create])
  have v: "totalTubePayouts (recordAnteCollection createHouseLedger 25) = 0
           \<and> totalPayoutsGiven (recordAnteCollection createHouseLedger 25) = 0
           \<and> totalAnteCollected (recordAnteCollection createHouseLedger 25) = 25
           \<and> totalBustPenaltiesCollected (recordAnteCollection createHouseLedger 25) = 0"
    by (simp add: recordAnteCollection_def createHouseLedger_def updateNetProfit_def)
  show ?thesis using r v ledger_conservation [OF r, of 5] by simp
qed

section \<open>Tube payout\<close>

text \<open>
  C4. For every strategy and every \<open>currentBalance \<le> 0\<close> (0 included),
  \<open>calculateTubePayout\<close> returns payout 0, new balance 0, \<open>wasEmpty\<close> and \<open>triggersBust\<close> set;
  the result is the same record whatever the strategy is, so the strategy plays no part in it.
\<close>

theorem empty_tube_triggers_bust:
  "currentBalance \<le> 0 \<Longrightarrow>
     calculateTubePayout tubeType currentBalance initialBalance maxBalance strategy =
       \<lparr> r_payout = 0, newBalance = 0, wasEmpty = True, triggersBust = True \<rparr>"
  by (simp add: calculateTubePayout_def)

theorem empty_tube_triggers_bust_witness:
  "(0::real) \<le> 0 \<and>
   calculateTubePayout ''RF'' 0 25 50 fixedStrategy =
     \<lparr> r_payout = 0, newBalance = 0, wasEmpty = True, triggersBust = True \<rparr>"
  using empty_tube_triggers_bust [of 0 "''RF''" 25 50 fixedStrategy] by simp

text \<open>
  C5. For every strategy and every \<open>currentBalance \<ge> 0\<close> the payout is at most the
  balance, the new balance is the balance minus the payout and is never negative; on a
  tube that holds something the payout is the minimum of the strategy's result and the
  balance.
\<close>

theorem tube_clamp:
  "0 \<le> currentBalance \<Longrightarrow>
     (let r = calculateTubePayout tubeType currentBalance initialBalance maxBalance strategy
      in r_payout r \<le> currentBalance
         \<and> newBalance r = currentBalance - r_payout r
         \<and> 0 \<le> newBalance r
         \<and> (0 < currentBalance \<longrightarrow>
              r_payout r = min (calculate strategy \<lparr> tube_current = currentBalance,
                                                      tube_initial = initialBalance,
                                                      tube_max = maxBalance \<rparr>) currentBalance))"
  by (simp add: calculateTubePayout_def Let_def)

theorem tube_clamp_witness:
  "(0::real) \<le> 3 \<and> (0::real) < 3
   \<and> r_payout (calculateTubePayout ''ST'' 3 5 10 fixedStrategy) = 3
   \<and> newBalance (calculateTubePayout ''ST'' 3 5 10 fixedStrategy) = 0"
  using tube_clamp [of 3 "''ST''" 5 10 fixedStrategy]
  by (simp add: Let_def fixedStrategy_def)

text \<open>
  C8. Under the percentage strategy with \<open>p = 0.25\<close> (the one \<open>getPayoutStrategy\<close> builds),
  a tube holding an integer balance \<open>n \<ge> 1\<close> pays \<open>floor (n * 0.25) = n div 4\<close> and keeps
  \<open>n - n div 4\<close>, which is strictly positive.
\<close>

theorem percentage_never_empties:
  "1 \<le> n \<Longrightarrow>
     (let r = calculateTubePayout tubeType (of_int n) initialBalance maxBalance
                (getPayoutStrategy Percentage)
      in r_payout r = of_int (n div 4)
         \<and> newBalance r = of_int (n - n div 4)
         \<and> 0 < newBalance r)"
proof -
  assume n: "1 \<le> n"
  have fl: "\<lfloor>real_of_int n / 4\<rfloor> = n div 4"
  proof -
    have "real_of_int n / 4 = real_of_int n / real_of_int 4" by simp
    then show ?thesis by (simp only: floor_divide_of_int_eq)
  qed
  have le: "n div 4 \<le> n" using n by simp
  have lt: "n div 4 < n" using n by simp
  from le have m: "min (real_of_int (n div 4)) (real_of_int n) = real_of_int (n div 4)"
    by simp
  show ?thesis
    using n lt
    by (simp add: calculateTubePayout_def createPercentageStrategy_def Let_def fl m
          del: of_int_diff)
qed

theorem percentage_never_empties_witness:
  "(1::int) \<le> 1
   \<and> r_payout (calculateTubePayout ''ST'' 1 5 10 (getPayoutStrategy Percentage)) = 0
   \<and> newBalance (calculateTubePayout ''ST'' 1 5 10 (getPayoutStrategy Percentage)) = 1"
  using percentage_never_empties [of 1 "''ST''" 5 10] by (simp add: Let_def)

section \<open>Balancing engine: score and recommendations\<close>

lemma exploit_fold:
  "foldl (\<lambda>sum ht. sum + (if ev ht > m then ev ht * c else 0)) a xs
     = a + c * (\<Sum>ht \<leftarrow> filter (\<lambda>ht. ev ht > m) xs. ev ht)"
  by (induction xs arbitrary: a) (simp_all add: algebra_simps)

text \<open>
  C1 (as the code has it). \<open>calculateScore\<close> is the weighted edge deviation, plus the weighted
  excess of the volatility over \<open>maxVolatility\<close>, plus the weighted excess of the mean of the
  five drain rates over 0.3, plus the exploit weight times the sum of the full \<open>ev\<close> (not the
  excess over the ceiling) of each exploitable rule whose \<open>ev\<close> exceeds \<open>maxExploitEV\<close>. The
  weights, \<open>targetEdge\<close>, \<open>maxVolatility\<close> and \<open>maxExploitEV\<close> are read from the objective.
\<close>

theorem score_formula:
  "calculateScore eng metrics =
     edgeDeviation (weights (objective eng)) * \<bar>houseEdge metrics - targetEdge (objective eng)\<bar>
     + volatility (weights (objective eng))
         * max 0 (volatilityIndex metrics - maxVolatility (objective eng))
     + tubeDrain (weights (objective eng)) * max 0 (avgDrainOf (tubeDrainRates metrics) - 0.3)
     + exploitRisk (weights (objective eng))
         * (\<Sum>ht \<leftarrow> filter (\<lambda>ht. ev ht > maxExploitEV (objective eng)) (exploitableHTs metrics).
              ev ht)"
  by (simp add: calculateScore_def Let_def exploit_fold max_def)

text \<open>
  C1 as stated fails: with the default objective, the edge on target and one exploitable rule
  of \<open>ev = 0.05\<close>, the code scores \<open>0.8 * 0.05 = 0.04\<close>, the stated formula
  \<open>0.8 * (0.05 - 0.02) = 0.024\<close>.
\<close>

theorem score_counterexample:
  "calculateScore (createAIBalancer DEFAULT_OBJECTIVE) exploit_metrics = 0.04
   \<and> spec_score (createAIBalancer DEFAULT_OBJECTIVE) exploit_metrics = 0.024
   \<and> calculateScore (createAIBalancer DEFAULT_OBJECTIVE) exploit_metrics
       \<noteq> spec_score (createAIBalancer DEFAULT_OBJECTIVE) exploit_metrics"
  by (simp add: calculateScore_def spec_score_def createAIBalancer_def DEFAULT_OBJECTIVE_def
        exploit_metrics_def no_drain_def avgDrainOf_def tube_keys_def Let_def)

lemma fp_normalize_numeral:
  "fp_normalize (numeral k) m e =
     (if 2 ^ 53 \<le> m then fp_normalize (pred_numeral k) (m / 2) (e + 1)
      else if m < 2 ^ 52 \<and> - 1074 < e then fp_normalize (pred_numeral k) (m * 2) (e - 1)
      else (m, e))"
  by (simp add: numeral_eq_Suc)

lemmas fp_eval = dbl_def fadd_def fsub_def fmul_def fdiv_def rnd_def rne_def scale2_def
  fp_normalize_numeral Let_def

text \<open>Doubles that the source's literals and the sample inputs denote.\<close>

lemma dbl_values:
  "dbl 0.5 = 1 / 2"
  "dbl 2 = 2"
  "dbl 1 = 1"
  "dbl 5 = 5"
  "dbl 10 = 10"
  "dbl 15 = 15"
  "dbl 20 = 20"
  "dbl 25 = 25"
  "dbl 0.01 = 5764607523034235 / 576460752303423488"
  "dbl 0.04 = 5764607523034235 / 144115188075855872"
  "dbl 0.05 = 3602879701896397 / 72057594037927936"
  "dbl 0.1 = 3602879701896397 / 36028797018963968"
  "dbl 0.3 = 5404319552844595 / 18014398509481984"
  "dbl 0.32 = 5764607523034235 / 18014398509481984"
  "dbl 0.4 = 3602879701896397 / 9007199254740992"
  by (simp_all add: fp_eval)

text \<open>
  Known facts of binary64 arithmetic that the model reproduces: \<open>0.1 + 0.2\<close> is the double
  above 0.3, a tie goes to the even significand, and the smallest subnormal is kept.
\<close>

lemma rnd_examples:
  "fadd (dbl 0.1) (dbl 0.2) = 5404319552844596 / 18014398509481984"
  "fadd (dbl 0.1) (dbl 0.2) > dbl 0.3"
  "rnd (2 ^ 53 + 1) = 2 ^ 53"
  "rnd (2 ^ 53 + 3) = 2 ^ 53 + 4"
  "rnd (- (2 ^ 53 + 3)) = - (2 ^ 53 + 4)"
  "rnd (1 / 2 ^ 1074) = 1 / 2 ^ 1074"
  "rnd (1 / 3) = 6004799503160661 / 18014398509481984"
  by (simp_all add: fp_eval)










section \<open>Hold-type registry: the default registry and the invariant\<close>

lemma rules_new:
  "rules (newHTRegistry he) = map (\<lambda>r. (rule_id r, r)) (defaultRules he)"
  by (simp add: newHTRegistry_def registerDefaultRules_def defaultRules_def register_def
        made_hand_rule_def)

lemma stats_new:
  "stats (newHTRegistry he) = map (\<lambda>r. (rule_id r, createEmptyStats)) (defaultRules he)"
  by (simp add: newHTRegistry_def registerDefaultRules_def defaultRules_def register_def
        made_hand_rule_def)

lemma ids_default:
  "map rule_id (defaultRules he) =
     [''H5.RF'', ''H5.SF'', ''H5.4K'', ''H5.FH'', ''H5.FL'', ''H5.ST'', ''H4.4FL'', ''H4.4ST'',
      ''H3.3K'', ''H2.2P'', ''H2.1P'', ''H1.HC'', ''H0.DRAW5'']"
  by (simp add: defaultRules_def made_hand_rule_def)

lemma wf_new: "registry_wf (newHTRegistry he)"
proof -
  have k: "map fst (rules (newHTRegistry he)) = map rule_id (defaultRules he)"
    by (simp add: rules_new comp_def)
  have s: "map fst (stats (newHTRegistry he)) = map rule_id (defaultRules he)"
    by (simp add: stats_new comp_def)
  have d: "distinct (map fst (rules (newHTRegistry he)))"
    unfolding k ids_default by simp
  have i: "list_all (\<lambda>(k, r). rule_id r = k) (rules (newHTRegistry he))"
    by (simp add: rules_new list_all_iff)
  have e: "fst ` set (rules (newHTRegistry he)) = fst ` set (stats (newHTRegistry he))"
    using k s by (metis set_map)
  show ?thesis using d i e by (simp add: registry_wf_def)
qed

section \<open>Hold-type registry: decisions\<close>

lemma decide_loop_cases:
  "(decide_loop rs cards hr = fallback_decision \<and> (\<forall>r \<in> set rs. matcher r cards hr = None))
   \<or> (\<exists>r \<in> set rs. \<exists>hold. matcher r cards hr = Some hold
          \<and> decide_loop rs cards hr = rule_decision r hold)"
  by (induction rs) (auto split: option.splits)

lemma decide_loop_match:
  "r \<in> set rs \<Longrightarrow> matcher r cards hr \<noteq> None \<Longrightarrow>
     \<exists>r' \<in> set rs. \<exists>hold. matcher r' cards hr = Some hold
        \<and> decide_loop rs cards hr = rule_decision r' hold"
  using decide_loop_cases [of rs cards hr] by auto

lemma set_getAllRules:
  "set (getAllRules reg) = {r. r \<in> snd ` set (rules reg) \<and> enabled r}"
  by (auto simp: getAllRules_def)

lemma wf_lookup:
  "registry_wf reg \<Longrightarrow> (k, r) \<in> set (rules reg) \<Longrightarrow>
     rule_id r = k \<and> map_of (rules reg) k = Some r"
  by (auto simp: registry_wf_def list_all_iff)

lemma rules_setEnabled:
  "map_of (rules (setEnabled reg k en)) h =
     (if h = k then map_option (\<lambda>r. r\<lparr> enabled := en \<rparr>) (map_of (rules reg) k)
      else map_of (rules reg) h)"
  by (simp add: setEnabled_def AList.update_conv' split: option.splits)

lemma stats_setEnabled: "stats (setEnabled reg k en) = stats reg"
  by (simp add: setEnabled_def split: option.splits)

lemma keys_setEnabled: "map fst (rules (setEnabled reg k en)) = map fst (rules reg)"
proof (cases "map_of (rules reg) k")
  case None
  then show ?thesis by (simp add: setEnabled_def)
next
  case (Some r)
  then have "k \<in> fst ` set (rules reg)" by (metis map_of_eq_None_iff option.distinct(1))
  then show ?thesis using Some by (simp add: setEnabled_def AList.update_keys)
qed

lemma update_ids:
  "list_all (\<lambda>(k, r). rule_id r = k) al \<Longrightarrow> rule_id v = k \<Longrightarrow>
     list_all (\<lambda>(k, r). rule_id r = k) (AList.update k v al)"
  by (induction al) auto

lemma wf_setEnabled: "registry_wf reg \<Longrightarrow> registry_wf (setEnabled reg k en)"
proof -
  assume wf: "registry_wf reg"
  show ?thesis
  proof (cases "map_of (rules reg) k")
    case None
    then show ?thesis using wf by (simp add: setEnabled_def)
  next
    case (Some r)
    then have "(k, r) \<in> set (rules reg)" by (rule map_of_SomeD)
    then have id: "rule_id (r\<lparr> enabled := en \<rparr>) = k" using wf wf_lookup by fastforce
    have keys: "map fst (rules (setEnabled reg k en)) = map fst (rules reg)"
      by (rule keys_setEnabled)
    have "list_all (\<lambda>(k, r). rule_id r = k) (rules (setEnabled reg k en))"
      using wf Some id by (simp add: setEnabled_def registry_wf_def update_ids)
    moreover have "distinct (map fst (rules (setEnabled reg k en)))"
      using wf keys by (simp add: registry_wf_def)
    moreover have "fst ` set (rules (setEnabled reg k en)) = fst ` set (stats (setEnabled reg k en))"
      using wf keys by (metis registry_wf_def set_map stats_setEnabled)
    ultimately show ?thesis by (simp add: registry_wf_def)
  qed
qed

lemma wf_mitigate: "registry_wf reg \<Longrightarrow> registry_wf (mitigateExploits eng xs reg)"
  unfolding mitigateExploits_def
  by (induction xs arbitrary: reg) (simp_all add: wf_setEnabled)

lemma rules_mitigate:
  "map_of (rules (mitigateExploits eng xs reg)) h =
     map_option (\<lambda>r. if \<exists>e \<in> set xs. e_htId e = h \<and> ev e > maxExploitEV (objective eng) * 2
                      then r\<lparr> enabled := False \<rparr> else r)
       (map_of (rules reg) h)"
proof (induction xs arbitrary: reg)
  case Nil
  show ?case by (simp add: mitigateExploits_def option.map_ident)
next
  case (Cons x xs)
  have step: "mitigateExploits eng (x # xs) reg =
      mitigateExploits eng xs (if ev x > maxExploitEV (objective eng) * 2
                               then setEnabled reg (e_htId x) False else reg)"
    by (simp add: mitigateExploits_def)
  show ?case
    unfolding step Cons.IH
    by (cases "map_of (rules reg) h") (auto simp: rules_setEnabled)
qed

lemma stats_mitigate: "stats (mitigateExploits eng xs reg) = stats reg"
  unfolding mitigateExploits_def
  by (induction xs arbitrary: reg) (simp_all add: stats_setEnabled)

lemma disabled_not_decided:
  assumes wf: "registry_wf reg"
    and look: "map_of (rules reg) h = Some r"
    and off: "\<not> enabled r"
    and five: "length cards = 5"
  shows "\<exists>d. decide he reg cards = Inr d \<and> (htId d = h \<longrightarrow> h = ''H0.DRAW5'' \<and> d = fallback_decision)"
proof -
  let ?d = "decide_loop (getAllRules reg) cards (evaluateHand he cards)"
  have dec: "decide he reg cards = Inr ?d" using five by (simp add: decide_def)
  have "htId ?d = h \<longrightarrow> h = ''H0.DRAW5'' \<and> ?d = fallback_decision"
  proof
    assume eq: "htId ?d = h"
    from decide_loop_cases [of "getAllRules reg" cards "evaluateHand he cards"]
    show "h = ''H0.DRAW5'' \<and> ?d = fallback_decision"
    proof
      assume "?d = fallback_decision \<and> (\<forall>r \<in> set (getAllRules reg). matcher r cards (evaluateHand he cards) = None)"
      then show ?thesis using eq by (auto simp: fallback_decision_def)
    next
      assume "\<exists>r' \<in> set (getAllRules reg). \<exists>hold. matcher r' cards (evaluateHand he cards) = Some hold
                \<and> ?d = rule_decision r' hold"
      then obtain r' hold where in_all: "r' \<in> set (getAllRules reg)"
        and d: "?d = rule_decision r' hold" by blast
      from in_all obtain k where mem: "(k, r') \<in> set (rules reg)" and en: "enabled r'"
        by (auto simp: set_getAllRules)
      from wf_lookup [OF wf mem] have "rule_id r' = k" and "map_of (rules reg) k = Some r'"
        by simp_all
      moreover have "rule_id r' = h" using eq d by (simp add: rule_decision_def)
      ultimately have "r' = r" using look by simp
      then show ?thesis using en off by simp
    qed
  qed
  then show ?thesis using dec by blast
qed

lemma recordOutcome_absent:
  "registry_wf reg \<Longrightarrow> map_of (rules reg) h = None \<Longrightarrow>
     recordOutcome reg h oc wagered won tubeType = reg"
proof -
  assume wf: "registry_wf reg" and none: "map_of (rules reg) h = None"
  from none have "h \<notin> fst ` set (rules reg)" by (simp add: map_of_eq_None_iff)
  then have "h \<notin> fst ` set (stats reg)" using wf by (simp add: registry_wf_def)
  then have "map_of (stats reg) h = None" by (simp add: map_of_eq_None_iff)
  then show ?thesis by (simp add: recordOutcome_def)
qed

lemma getAll_new:
  "getAllRules (newHTRegistry he) = defaultRules he"
  by (simp add: getAllRules_def rules_new defaultRules_def made_hand_rule_def)

lemma fallback_rule_new:
  "map_of (rules (newHTRegistry he)) ''H0.DRAW5'' =
     Some \<lparr> rule_id = ''H0.DRAW5'', priority = 0, category = ''H0'',
            description = ''Draw all 5 - no holdings'', bustPotential = True,
            theoreticalEV = 0.5, enabled = True, matcher = (\<lambda>_ _. Some []) \<rparr>"
  by (simp add: rules_new defaultRules_def made_hand_rule_def)

text \<open>
  C6. \<open>decide\<close> throws exactly when its input does not hold 5 cards, whatever the registry;
  on 5 cards it returns a decision. The default registry holds the rule \<open>H0.DRAW5\<close> with
  priority 0, enabled, whose matcher holds nothing and never declines, and with it every
  5-card decision is the decision of an enabled registered rule whose matcher accepted the
  hand.
\<close>

theorem decide_total:
  "((\<exists>e. decide he reg cards = Inl e) \<longleftrightarrow> length cards \<noteq> 5)
   \<and> (length cards = 5 \<longrightarrow> (\<exists>d. decide he reg cards = Inr d))
   \<and> (\<exists>r0. map_of (rules (newHTRegistry he)) ''H0.DRAW5'' = Some r0 \<and> priority r0 = 0
          \<and> enabled r0 \<and> (\<forall>cs hr. matcher r0 cs hr = Some []))
   \<and> (length cards = 5 \<longrightarrow>
        (\<exists>r \<in> set (getAllRules (newHTRegistry he)). \<exists>hold.
            matcher r cards (evaluateHand he cards) = Some hold
            \<and> decide he (newHTRegistry he) cards = Inr (rule_decision r hold)))"
proof -
  have a: "(\<exists>e. decide he reg cards = Inl e) \<longleftrightarrow> length cards \<noteq> 5"
    by (simp add: decide_def)
  have b: "length cards = 5 \<longrightarrow> (\<exists>d. decide he reg cards = Inr d)"
    by (simp add: decide_def)
  have c: "\<exists>r0. map_of (rules (newHTRegistry he)) ''H0.DRAW5'' = Some r0 \<and> priority r0 = 0
          \<and> enabled r0 \<and> (\<forall>cs hr. matcher r0 cs hr = Some [])"
    by (simp add: fallback_rule_new)
  have d: "length cards = 5 \<longrightarrow>
        (\<exists>r \<in> set (getAllRules (newHTRegistry he)). \<exists>hold.
            matcher r cards (evaluateHand he cards) = Some hold
            \<and> decide he (newHTRegistry he) cards = Inr (rule_decision r hold))"
  proof
    assume five: "length cards = 5"
    let ?r0 = "\<lparr> rule_id = ''H0.DRAW5'', priority = 0, category = ''H0'',
            description = ''Draw all 5 - no holdings'', bustPotential = True,
            theoreticalEV = 0.5, enabled = True, matcher = (\<lambda>_ _. Some []) \<rparr>"
    have "(''H0.DRAW5'', ?r0) \<in> set (rules (newHTRegistry he))"
      using fallback_rule_new by (rule map_of_SomeD)
    then have "?r0 \<in> set (getAllRules (newHTRegistry he))"
      by (force simp: set_getAllRules)
    moreover have "matcher ?r0 cards (evaluateHand he cards) \<noteq> None" by simp
    ultimately have "\<exists>r' \<in> set (getAllRules (newHTRegistry he)). \<exists>hold.
        matcher r' cards (evaluateHand he cards) = Some hold
        \<and> decide_loop (getAllRules (newHTRegistry he)) cards (evaluateHand he cards)
            = rule_decision r' hold"
      by (rule decide_loop_match)
    then show "\<exists>r \<in> set (getAllRules (newHTRegistry he)). \<exists>hold.
            matcher r cards (evaluateHand he cards) = Some hold
            \<and> decide he (newHTRegistry he) cards = Inr (rule_decision r hold)"
      using five by (simp add: decide_def)
  qed
  show ?thesis using a b c d by blast
qed

theorem decide_total_witness:
  "length ace_hand = 5
   \<and> decide stub_evaluator (newHTRegistry stub_evaluator) ace_hand =
       Inr \<lparr> htId = ''H1.HC'', d_category = ''H1'',
             d_description = ''Hold highest card (A or K)'',
             cardsToHold = [1], expectedValue = 1, d_bustPotential = True \<rparr>
   \<and> length (tl ace_hand) \<noteq> 5
   \<and> (\<exists>e. decide stub_evaluator (newHTRegistry stub_evaluator) (tl ace_hand) = Inl e)"
proof -
  have five: "length ace_hand = 5" by (simp add: ace_hand_def)
  have four: "length (tl ace_hand) \<noteq> 5" by (simp add: ace_hand_def)
  have v: "decide stub_evaluator (newHTRegistry stub_evaluator) ace_hand =
       Inr \<lparr> htId = ''H1.HC'', d_category = ''H1'',
             d_description = ''Hold highest card (A or K)'',
             cardsToHold = [1], expectedValue = 1, d_bustPotential = True \<rparr>"
    by (simp add: decide_def getAll_new defaultRules_def made_hand_rule_def ace_hand_def
          stub_evaluator_def rule_decision_def)
  show ?thesis
    using five four v
      decide_total [of stub_evaluator "newHTRegistry stub_evaluator" "tl ace_hand"]
    by simp
qed

text \<open>
  Exploit mitigation and the \<open>enabled\<close> flag. In a well-formed registry \<open>mitigateExploits\<close>
  clears the \<open>enabled\<close> flag of exactly the registered rules that some reported exploit with
  \<open>ev > 2 * maxExploitEV\<close> names, and changes nothing else of any rule. The loop of \<open>decide\<close>
  never chooses a rule whose flag is false: on a 5-card hand a decision carrying the id of a
  disabled rule can only be the built-in fallback decision behind the loop, whose id is
  \<open>H0.DRAW5\<close>.
\<close>

theorem mitigation_disables:
  "registry_wf reg \<Longrightarrow>
     map_of (rules (mitigateExploits eng xs reg)) h =
       map_option (\<lambda>r. if \<exists>e \<in> set xs. e_htId e = h \<and> ev e > maxExploitEV (objective eng) * 2
                        then r\<lparr> enabled := False \<rparr> else r)
         (map_of (rules reg) h)
     \<and> (map_option enabled (map_of (rules (mitigateExploits eng xs reg)) h) = Some False
          \<and> length cards = 5 \<longrightarrow>
        (\<exists>d. decide he (mitigateExploits eng xs reg) cards = Inr d
              \<and> (htId d = h \<longrightarrow> h = ''H0.DRAW5'' \<and> d = fallback_decision)))"
proof -
  assume wf: "registry_wf reg"
  have wf': "registry_wf (mitigateExploits eng xs reg)" using wf by (rule wf_mitigate)
  have "map_option enabled (map_of (rules (mitigateExploits eng xs reg)) h) = Some False
          \<and> length cards = 5 \<longrightarrow>
        (\<exists>d. decide he (mitigateExploits eng xs reg) cards = Inr d
              \<and> (htId d = h \<longrightarrow> h = ''H0.DRAW5'' \<and> d = fallback_decision))"
  proof
    assume h: "map_option enabled (map_of (rules (mitigateExploits eng xs reg)) h) = Some False
          \<and> length cards = 5"
    then obtain r where look: "map_of (rules (mitigateExploits eng xs reg)) h = Some r"
      and off: "\<not> enabled r" by auto
    from disabled_not_decided [OF wf' look off] h
    show "\<exists>d. decide he (mitigateExploits eng xs reg) cards = Inr d
              \<and> (htId d = h \<longrightarrow> h = ''H0.DRAW5'' \<and> d = fallback_decision)"
      by blast
  qed
  then show ?thesis using rules_mitigate by blast
qed

lemma getAll_high_card_off:
  "getAllRules (mitigateExploits (createAIBalancer DEFAULT_OBJECTIVE) high_card_exploit
       (newHTRegistry he)) = take 11 (defaultRules he) @ [last (defaultRules he)]"
  by (simp add: getAllRules_def mitigateExploits_def high_card_exploit_def setEnabled_def
        createAIBalancer_def DEFAULT_OBJECTIVE_def rules_new defaultRules_def made_hand_rule_def)

lemma getAll_fallback_off:
  "getAllRules (mitigateExploits (createAIBalancer DEFAULT_OBJECTIVE) fallback_exploit
       (newHTRegistry he)) = butlast (defaultRules he)"
  by (simp add: getAllRules_def mitigateExploits_def fallback_exploit_def setEnabled_def
        createAIBalancer_def DEFAULT_OBJECTIVE_def rules_new defaultRules_def made_hand_rule_def)

theorem mitigation_disables_witness:
  "registry_wf (newHTRegistry stub_evaluator)
   \<and> map_option enabled (map_of (rules (newHTRegistry stub_evaluator)) ''H1.HC'') = Some True
   \<and> map_option enabled
        (map_of (rules (mitigateExploits (createAIBalancer DEFAULT_OBJECTIVE) high_card_exploit
                          (newHTRegistry stub_evaluator))) ''H1.HC'') = Some False
   \<and> length ace_hand = 5
   \<and> (\<exists>d. decide stub_evaluator
             (mitigateExploits (createAIBalancer DEFAULT_OBJECTIVE) high_card_exploit
                (newHTRegistry stub_evaluator)) ace_hand = Inr d
           \<and> htId d \<noteq> ''H1.HC'')"
proof -
  let ?R = "mitigateExploits (createAIBalancer DEFAULT_OBJECTIVE) high_card_exploit
              (newHTRegistry stub_evaluator)"
  have wf: "registry_wf (newHTRegistry stub_evaluator)" by (rule wf_new)
  have on: "map_option enabled (map_of (rules (newHTRegistry stub_evaluator)) ''H1.HC'') = Some True"
    by (simp add: rules_new defaultRules_def made_hand_rule_def)
  have five: "length ace_hand = 5" by (simp add: ace_hand_def)
  note m = mitigation_disables [OF wf, of "createAIBalancer DEFAULT_OBJECTIVE" high_card_exploit
             "''H1.HC''" ace_hand stub_evaluator]
  have ex: "\<exists>e \<in> set high_card_exploit. e_htId e = ''H1.HC''
              \<and> ev e > maxExploitEV (objective (createAIBalancer DEFAULT_OBJECTIVE)) * 2"
    by (simp add: high_card_exploit_def createAIBalancer_def DEFAULT_OBJECTIVE_def)
  from on obtain r where r: "map_of (rules (newHTRegistry stub_evaluator)) ''H1.HC'' = Some r"
    by auto
  have off: "map_option enabled (map_of (rules ?R) ''H1.HC'') = Some False"
    using m ex r by simp
  from m off five obtain d where "decide stub_evaluator ?R ace_hand = Inr d"
    and "htId d = ''H1.HC'' \<longrightarrow> ''H1.HC'' = ''H0.DRAW5'' \<and> d = fallback_decision"
    by blast
  then have "\<exists>d. decide stub_evaluator ?R ace_hand = Inr d \<and> htId d \<noteq> ''H1.HC''" by auto
  then show ?thesis using wf on off five by blast
qed

text \<open>
  C7. A rule disabled by \<open>mitigateExploits\<close> must never again be returned by \<open>decide\<close>. The
  code breaks this for \<open>H0.DRAW5\<close>: the default registry after the exploit report
  \<open>{htId: 'H0.DRAW5', ev: 0.05}\<close> (with \<open>maxExploitEV = 0.02\<close>) has the rule's flag cleared, and
  on a high-card hand without ace or king and without a four-card draw no enabled rule
  matches, so \<open>decide\<close> falls through its loop and returns the built-in decision with the id
  \<open>H0.DRAW5\<close>. The comment at that fallback reads "should never reach if H0.DRAW5 is
  registered"; the rule is registered here, only disabled, and the fallback does not look at
  the flag that \<open>getAllRules\<close> filters on.
\<close>

theorem disabled_fallback_counterexample:
  "map_option enabled
     (map_of (rules (mitigateExploits (createAIBalancer DEFAULT_OBJECTIVE) fallback_exploit
                       (newHTRegistry stub_evaluator))) ''H0.DRAW5'') = Some False
   \<and> length low_hand = 5
   \<and> decide stub_evaluator
       (mitigateExploits (createAIBalancer DEFAULT_OBJECTIVE) fallback_exploit
          (newHTRegistry stub_evaluator)) low_hand = Inr fallback_decision
   \<and> htId fallback_decision = ''H0.DRAW5''"
proof -
  have a: "map_option enabled
     (map_of (rules (mitigateExploits (createAIBalancer DEFAULT_OBJECTIVE) fallback_exploit
                       (newHTRegistry stub_evaluator))) ''H0.DRAW5'') = Some False"
    by (simp add: rules_mitigate fallback_rule_new fallback_exploit_def createAIBalancer_def
          DEFAULT_OBJECTIVE_def)
  have b: "decide stub_evaluator
       (mitigateExploits (createAIBalancer DEFAULT_OBJECTIVE) fallback_exploit
          (newHTRegistry stub_evaluator)) low_hand = Inr fallback_decision"
    by (simp add: decide_def getAll_fallback_off defaultRules_def made_hand_rule_def
          low_hand_def stub_evaluator_def)
  show ?thesis using a b by (simp add: low_hand_def fallback_decision_def)
qed

text \<open>
  C10. \<open>recordOutcome\<close> with an id that is not registered returns the registry as it was:
  no rule's statistics change. The function has no failing branch, so nothing is thrown.
\<close>

theorem recordOutcome_unregistered:
  "registry_wf reg \<Longrightarrow> map_of (rules reg) h = None \<Longrightarrow>
     recordOutcome reg h oc wagered won tubeType = reg"
  by (rule recordOutcome_absent)

theorem recordOutcome_unregistered_witness:
  "registry_wf (newHTRegistry stub_evaluator)
   \<and> map_of (rules (newHTRegistry stub_evaluator)) ''H9.NONE'' = None
   \<and> recordOutcome (newHTRegistry stub_evaluator) ''H9.NONE'' Win 5 25 (Some ''RF'')
       = newHTRegistry stub_evaluator"
proof -
  have wf: "registry_wf (newHTRegistry stub_evaluator)" by (rule wf_new)
  have none: "map_of (rules (newHTRegistry stub_evaluator)) ''H9.NONE'' = None"
    by (simp add: rules_new defaultRules_def made_hand_rule_def)
  show ?thesis
    using wf none recordOutcome_unregistered [OF wf none, of Win 5 25 "Some ''RF''"] by simp
qed

section \<open>Showdown: a tie\<close>

lemma tie_branch:
  assumes "isActive p" and "handResult p = Some hr" and "compareHands hr dealerResult = 0"
    and "\<not> dealerWinsOnTie config"
  shows "resolveParticipant config compareHands now dealerResult p rs reg =
      (p\<lparr> credits := credits p + ante config \<rparr>,
       rs\<lparr> outcomes := outcomes rs @
            [\<lparr> participantId = p_id p, outcome = Tie, handRank = hr_rank hr,
               payout = ante config, tubePayout = 0, bustPenalty = 0 \<rparr>] \<rparr>,
       recordOutcome reg (decisionId p) Win (ante config) (ante config)
         (map_option tubeName (handRankToTube (hr_rank hr))))"
  using assms by (simp add: resolveParticipant_def Let_def)

lemma roundLedger_tie:
  "outcome oc = Tie \<Longrightarrow> roundLedger l (rs\<lparr> outcomes := outcomes rs @ [oc] \<rparr>) = roundLedger l rs"
  by (simp add: roundLedger_def processRoundOutcomes_def Let_def)

lemma process_ignores_tie:
  "outcome oc = Tie \<Longrightarrow>
     processRoundOutcomes l (os1 @ [oc] @ os2) ts bs a = processRoundOutcomes l (os1 @ os2) ts bs a"
  by (simp add: processRoundOutcomes_def Let_def)

lemma recordOutcome_win:
  "map_of (stats reg) h = Some st \<Longrightarrow>
     map_option winCount (map_of (stats (recordOutcome reg h Win wagered won tubeType)) h)
       = Some (winCount st + 1)
     \<and> map_option lossCount (map_of (stats (recordOutcome reg h Win wagered won tubeType)) h)
       = Some (lossCount st)"
  by (simp add: recordOutcome_def Let_def AList.update_conv' split: option.splits)

text \<open>
  C2 (as the code has it). With \<open>dealerWinsOnTie\<close> off, an active participant whose hand ties
  the dealer's gets the outcome \<open>tie\<close> with a payout equal to the ante (credited to the
  participant), and the statistics of the participant's rule record a win: \<open>recordOutcome\<close> is
  called with \<open>win\<close>, so a registered rule's \<open>winCount\<close> grows by one. The house ledger does
  not record the refund: wherever the tie outcome stands among the round's outcomes, before
  or after any others, \<open>processRoundOutcomes\<close> yields the same ledger as for the outcomes
  without it, because it records a payout for outcomes of kind \<open>win\<close> only. In particular the
  round with the tie outcome appended yields the same ledger as the round before.
\<close>

theorem tie_resolution:
  "isActive p \<Longrightarrow> handResult p = Some hr \<Longrightarrow> compareHands hr dealerResult = 0 \<Longrightarrow>
   \<not> dealerWinsOnTie config \<Longrightarrow>
     resolveParticipant config compareHands now dealerResult p rs reg =
       (p\<lparr> credits := credits p + ante config \<rparr>,
        rs\<lparr> outcomes := outcomes rs @
             [\<lparr> participantId = p_id p, outcome = Tie, handRank = hr_rank hr,
                payout = ante config, tubePayout = 0, bustPenalty = 0 \<rparr>] \<rparr>,
        recordOutcome reg (decisionId p) Win (ante config) (ante config)
          (map_option tubeName (handRankToTube (hr_rank hr))))
     \<and> processRoundOutcomes l
           (os1 @ [\<lparr> participantId = p_id p, outcome = Tie, handRank = hr_rank hr,
                      payout = ante config, tubePayout = 0, bustPenalty = 0 \<rparr>] @ os2) ts bs a
         = processRoundOutcomes l (os1 @ os2) ts bs a
     \<and> roundLedger l (fst (snd (resolveParticipant config compareHands now dealerResult p rs reg)))
         = roundLedger l rs
     \<and> (map_of (stats reg) (decisionId p) = Some st \<longrightarrow>
          map_option winCount
            (map_of (stats (snd (snd (resolveParticipant config compareHands now dealerResult
                                        p rs reg)))) (decisionId p))
          = Some (winCount st + 1))"
proof -
  assume a: "isActive p" "handResult p = Some hr" "compareHands hr dealerResult = 0"
    "\<not> dealerWinsOnTie config"
  have eq: "resolveParticipant config compareHands now dealerResult p rs reg =
       (p\<lparr> credits := credits p + ante config \<rparr>,
        rs\<lparr> outcomes := outcomes rs @
             [\<lparr> participantId = p_id p, outcome = Tie, handRank = hr_rank hr,
                payout = ante config, tubePayout = 0, bustPenalty = 0 \<rparr>] \<rparr>,
        recordOutcome reg (decisionId p) Win (ante config) (ante config)
          (map_option tubeName (handRankToTube (hr_rank hr))))"
    using a by (rule tie_branch)
  have pr: "processRoundOutcomes l
           (os1 @ [\<lparr> participantId = p_id p, outcome = Tie, handRank = hr_rank hr,
                      payout = ante config, tubePayout = 0, bustPenalty = 0 \<rparr>] @ os2) ts bs a
         = processRoundOutcomes l (os1 @ os2) ts bs a"
    by (rule process_ignores_tie) simp
  show ?thesis
    unfolding eq using recordOutcome_win [of reg "decisionId p" st] pr
    by (simp add: roundLedger_tie)
qed

lemma tied_resolve:
  "resolveParticipant DEFAULT_ENGINE_CONFIG tie_compare 0 high_card_result tied_player
       tied_round (newHTRegistry stub_evaluator) =
      (tied_player\<lparr> credits := credits tied_player + ante DEFAULT_ENGINE_CONFIG \<rparr>,
       tied_round\<lparr> outcomes := outcomes tied_round @
            [\<lparr> participantId = p_id tied_player, outcome = Tie,
               handRank = hr_rank high_card_result,
               payout = ante DEFAULT_ENGINE_CONFIG, tubePayout = 0, bustPenalty = 0 \<rparr>] \<rparr>,
       recordOutcome (newHTRegistry stub_evaluator) (decisionId tied_player) Win
         (ante DEFAULT_ENGINE_CONFIG) (ante DEFAULT_ENGINE_CONFIG)
         (map_option tubeName (handRankToTube (hr_rank high_card_result))))"
  by (rule tie_branch)
     (simp_all add: tied_player_def tie_compare_def DEFAULT_ENGINE_CONFIG_def)

text \<open>
  C2 as stated fails: in the sample round the participant ties, the outcome is \<open>tie\<close> with
  payout 5, and after the ledger update \<open>totalPayoutsGiven\<close> is still 0, not 0 + 5.
\<close>

theorem tie_refund_counterexample:
  "\<not> dealerWinsOnTie DEFAULT_ENGINE_CONFIG
   \<and> tie_compare high_card_result high_card_result = 0
   \<and> outcomes (fst (snd (resolveParticipant DEFAULT_ENGINE_CONFIG tie_compare 0
                            high_card_result tied_player tied_round
                            (newHTRegistry stub_evaluator)))) =
       [\<lparr> participantId = ''player_1'', outcome = Tie, handRank = ''high-card'', payout = 5,
          tubePayout = 0, bustPenalty = 0 \<rparr>]
   \<and> totalPayoutsGiven
       (roundLedger createHouseLedger
          (fst (snd (resolveParticipant DEFAULT_ENGINE_CONFIG tie_compare 0
                       high_card_result tied_player tied_round
                       (newHTRegistry stub_evaluator))))) = 0
   \<and> totalPayoutsGiven createHouseLedger + ante DEFAULT_ENGINE_CONFIG = 5"
  unfolding tied_resolve
  by (simp add: roundLedger_def processRoundOutcomes_def recordAnteCollection_def
        recordRoundComplete_def updateNetProfit_def createHouseLedger_def tied_round_def
        tied_player_def high_card_result_def DEFAULT_ENGINE_CONFIG_def tie_compare_def)

theorem tie_resolution_witness:
  "isActive tied_player \<and> handResult tied_player = Some high_card_result
   \<and> tie_compare high_card_result high_card_result = 0
   \<and> \<not> dealerWinsOnTie DEFAULT_ENGINE_CONFIG
   \<and> map_option winCount (map_of (stats (newHTRegistry stub_evaluator)) ''H0.DRAW5'') = Some 0
   \<and> map_option winCount
        (map_of (stats (snd (snd (resolveParticipant DEFAULT_ENGINE_CONFIG tie_compare 0
                                    high_card_result tied_player tied_round
                                    (newHTRegistry stub_evaluator))))) ''H0.DRAW5'') = Some 1
   \<and> roundLedger createHouseLedger
        (fst (snd (resolveParticipant DEFAULT_ENGINE_CONFIG tie_compare 0
                     high_card_result tied_player tied_round
                     (newHTRegistry stub_evaluator))))
       = roundLedger createHouseLedger tied_round
   \<and> totalPayoutsGiven
        (processRoundOutcomes createHouseLedger
           [\<lparr> participantId = ''player_1'', outcome = Tie, handRank = ''high-card'',
               payout = 5, tubePayout = 0, bustPenalty = 0 \<rparr>, plain_win] [] [] 15) = 5"
proof -
  have a: "isActive tied_player" by (simp add: tied_player_def)
  have b: "handResult tied_player = Some high_card_result" by (simp add: tied_player_def)
  have c: "tie_compare high_card_result high_card_result = 0" by (simp add: tie_compare_def)
  have d: "\<not> dealerWinsOnTie DEFAULT_ENGINE_CONFIG" by (simp add: DEFAULT_ENGINE_CONFIG_def)
  have i: "decisionId tied_player = ''H0.DRAW5''"
    by (simp add: decisionId_def tied_player_def fallback_decision_def)
  have s: "map_of (stats (newHTRegistry stub_evaluator)) ''H0.DRAW5'' = Some createEmptyStats"
    by (simp add: stats_new defaultRules_def made_hand_rule_def)
  have w: "winCount createEmptyStats = 0" by (simp add: createEmptyStats_def)
  note t = tie_resolution [where p = tied_player and hr = high_card_result
             and compareHands = tie_compare and dealerResult = high_card_result
             and config = DEFAULT_ENGINE_CONFIG and now = 0 and rs = tied_round
             and reg = "newHTRegistry stub_evaluator" and l = createHouseLedger
             and st = createEmptyStats and ?os1.0 = "[]" and ?os2.0 = "[plain_win]"
             and ts = "[]" and bs = "[]" and a = 15]
  from t [OF a b c d]
  have "processRoundOutcomes createHouseLedger
          ([] @ [\<lparr> participantId = p_id tied_player, outcome = Tie,
                    handRank = hr_rank high_card_result,
                    payout = ante DEFAULT_ENGINE_CONFIG, tubePayout = 0,
                    bustPenalty = 0 \<rparr>] @ [plain_win]) [] [] 15
        = processRoundOutcomes createHouseLedger ([] @ [plain_win]) [] [] 15"
    by blast
  moreover have "totalPayoutsGiven
        (processRoundOutcomes createHouseLedger ([] @ [plain_win]) [] [] 15) = 5"
    by (simp add: processRoundOutcomes_def plain_win_def recordAnteCollection_def
          recordPayout_def recordRoundComplete_def updateNetProfit_def createHouseLedger_def)
  ultimately have q: "totalPayoutsGiven
        (processRoundOutcomes createHouseLedger
           [\<lparr> participantId = ''player_1'', outcome = Tie, handRank = ''high-card'',
               payout = 5, tubePayout = 0, bustPenalty = 0 \<rparr>, plain_win] [] [] 15) = 5"
    by (simp add: tied_player_def high_card_result_def DEFAULT_ENGINE_CONFIG_def)
  from t [OF a b c d]
  have l: "roundLedger createHouseLedger
        (fst (snd (resolveParticipant DEFAULT_ENGINE_CONFIG tie_compare 0
                     high_card_result tied_player tied_round
                     (newHTRegistry stub_evaluator))))
       = roundLedger createHouseLedger tied_round"
    and n: "map_of (stats (newHTRegistry stub_evaluator)) (decisionId tied_player)
              = Some createEmptyStats \<longrightarrow>
            map_option winCount
              (map_of (stats (snd (snd (resolveParticipant DEFAULT_ENGINE_CONFIG tie_compare 0
                                    high_card_result tied_player tied_round
                                    (newHTRegistry stub_evaluator))))) (decisionId tied_player))
            = Some (winCount createEmptyStats + 1)"
    by blast+
  from n s w have n': "map_option winCount
        (map_of (stats (snd (snd (resolveParticipant DEFAULT_ENGINE_CONFIG tie_compare 0
                                    high_card_result tied_player tied_round
                                    (newHTRegistry stub_evaluator))))) ''H0.DRAW5'') = Some 1"
    unfolding i by simp
  from s w have z: "map_option winCount (map_of (stats (newHTRegistry stub_evaluator)) ''H0.DRAW5'')
      = Some 0" by simp
  show ?thesis using a b c d z n' l q by blast
qed

section \<open>Hold-type registry: every operation keeps the invariant\<close>

text \<open>
  The registry starts empty, the constructor registers the default rules, and afterwards it
  changes through \<open>register\<close>, \<open>unregister\<close>, \<open>setEnabled\<close>, \<open>recordOutcome\<close> and \<open>resetStats\<close>
  only; each of them preserves \<open>registry_wf\<close>.
\<close>

lemma wf_empty: "registry_wf \<lparr> rules = [], stats = [] \<rparr>"
  by (simp add: registry_wf_def)

lemma wf_register: "registry_wf reg \<Longrightarrow> registry_wf (register reg rule)"
proof -
  assume wf: "registry_wf reg"
  have d: "distinct (map fst (AList.update (rule_id rule) rule (rules reg)))"
    using wf by (simp add: registry_wf_def AList.distinct_update)
  have i: "list_all (\<lambda>(k, r). rule_id r = k) (AList.update (rule_id rule) rule (rules reg))"
    using wf by (simp add: registry_wf_def update_ids)
  have k: "fst ` set (AList.update (rule_id rule) rule (rules reg))
           = fst ` set (AList.update (rule_id rule) createEmptyStats (stats reg))"
    using wf by (simp add: registry_wf_def AList.dom_update)
  show ?thesis using d i k by (simp add: registry_wf_def register_def)
qed

lemma delete_ids:
  "list_all (\<lambda>(k, r). rule_id r = k) al \<Longrightarrow>
     list_all (\<lambda>(k, r). rule_id r = k) (AList.delete h al)"
  by (simp add: AList.delete_eq list_all_iff)

lemma keys_delete: "fst ` set (AList.delete h al) = fst ` set al - {h}"
  by (induction al) auto

lemma wf_unregister: "registry_wf reg \<Longrightarrow> registry_wf (unregister reg h)"
  by (simp add: registry_wf_def unregister_def AList.distinct_delete delete_ids keys_delete)

lemma keys_reset: "map fst (map (\<lambda>(h, _). (h, createEmptyStats)) al) = map fst al"
  by (induction al) auto

lemma wf_resetStats: "registry_wf reg \<Longrightarrow> registry_wf (resetStats reg)"
proof -
  assume wf: "registry_wf reg"
  have "map fst (stats (resetStats reg)) = map fst (stats reg)"
    by (auto simp: resetStats_def)
  then have "set (map fst (stats (resetStats reg))) = set (map fst (stats reg))"
    by (rule arg_cong)
  then have "fst ` set (stats (resetStats reg)) = fst ` set (stats reg)"
    by (simp only: set_map)
  moreover have "rules (resetStats reg) = rules reg" by (simp add: resetStats_def)
  ultimately show ?thesis using wf by (simp add: registry_wf_def)
qed

lemma wf_registerDefaultRules:
  "registry_wf reg \<Longrightarrow> registry_wf (registerDefaultRules he reg)"
proof -
  have "registry_wf reg \<Longrightarrow> registry_wf (fold (\<lambda>rule r. register r rule) rs reg)" for rs
    by (induction rs arbitrary: reg) (simp_all add: wf_register)
  then show "registry_wf reg \<Longrightarrow> registry_wf (registerDefaultRules he reg)"
    by (simp add: registerDefaultRules_def)
qed

lemma wf_recordOutcome:
  "registry_wf reg \<Longrightarrow> registry_wf (recordOutcome reg h oc wagered won tubeType)"
proof (cases "map_of (stats reg) h")
  case None
  assume "registry_wf reg"
  then show ?thesis using None by (simp add: recordOutcome_def)
next
  case (Some st)
  assume wf: "registry_wf reg"
  from Some have "h \<in> fst ` set (stats reg)" by (metis map_of_eq_None_iff option.distinct(1))
  then have "insert h (fst ` set (stats reg)) = fst ` set (stats reg)" by blast
  then show ?thesis
    using wf Some by (simp add: recordOutcome_def registry_wf_def Let_def AList.dom_update)
qed

section \<open>Showdown: an empty tube\<close>

text \<open>
  The consumer of \<open>triggersBust\<close>: a participant who beats the dealer with a tube rank whose
  tube is empty is recorded as \<open>bust\<close> and owes the ante times the bust penalty multiplier.
\<close>

lemma empty_tube_bust_outcome:
  assumes "isActive p" and "handResult p = Some hr" and "compareHands hr dealerResult > 0"
    and "handRankToTube (hr_rank hr) = Some t" and "tubeBalances rs t \<le> 0"
  shows "outcomes (fst (snd (resolveParticipant config compareHands now dealerResult p rs reg)))
           = outcomes rs @
             [\<lparr> participantId = p_id p, outcome = Bust, handRank = hr_rank hr, payout = 0,
                tubePayout = 0, bustPenalty = ante config * bustPenaltyMultiplier config \<rparr>]"
  using assms by (simp add: resolveParticipant_def Let_def calculateTubePayout_def)

end
